theory Spec2Isabelle
  imports Complex_Main "HOL-Library.Monad_Syntax" "HOL-Library.Word"
begin

section \<open>Scalars, vectors, matrices and quaternions\<close>

text \<open>
  The engine's scalar type \<open>decimal\<close> is a C++ floating-point type. The embedding
  idealises it as the reals: every statement below is about exact arithmetic, and
  the value \<open>None\<close> of a result stands for an execution the idealisation does not
  cover (a failed assertion, a handle without a component row, a division by zero).
\<close>

type_synonym decimal = real

text \<open>Modelled from the spec: the class Vector3 (mathematics/Vector3.h is not among the
  sources), a 3-vector of decimals with componentwise sum, difference and negation.\<close>

datatype Vector3 = Vector3 decimal decimal decimal

instantiation Vector3 :: ab_group_add
begin

definition zero_Vector3 :: Vector3 where
  "zero_Vector3 = Vector3 0 0 0"

fun plus_Vector3 :: "Vector3 \<Rightarrow> Vector3 \<Rightarrow> Vector3" where
  "plus_Vector3 (Vector3 a b c) (Vector3 d e f) = Vector3 (a + d) (b + e) (c + f)"

fun minus_Vector3 :: "Vector3 \<Rightarrow> Vector3 \<Rightarrow> Vector3" where
  "minus_Vector3 (Vector3 a b c) (Vector3 d e f) = Vector3 (a - d) (b - e) (c - f)"

fun uminus_Vector3 :: "Vector3 \<Rightarrow> Vector3" where
  "uminus_Vector3 (Vector3 a b c) = Vector3 (- a) (- b) (- c)"

instance
proof
  fix a b c :: Vector3
  show "a + b + c = a + (b + c)"
    by (cases a; cases b; cases c) simp
  show "a + b = b + a"
    by (cases a; cases b) simp
  show "0 + a = a"
    by (cases a) (simp add: zero_Vector3_def)
  show "- a + a = 0"
    by (cases a) (simp add: zero_Vector3_def)
  show "a - b = a + - b"
    by (cases a; cases b) simp
qed

end

text \<open>Modelled from the spec: the operator \<open>Vector3 * Vector3\<close> of the missing Vector3.h,
  the elementwise product written \<open>\<odot>\<close> in the spec (section 4.3).\<close>

instantiation Vector3 :: times
begin

fun times_Vector3 :: "Vector3 \<Rightarrow> Vector3 \<Rightarrow> Vector3" where
  "times_Vector3 (Vector3 a b c) (Vector3 d e f) = Vector3 (a * d) (b * e) (c * f)"

instance ..

end

text \<open>Modelled from the spec: the three components of a Vector3, numbered 0, 1 and 2
  as by the missing \<open>Vector3::operator[]\<close>.\<close>

fun component :: "Vector3 \<Rightarrow> nat \<Rightarrow> decimal" where
  "component (Vector3 a b c) k = (if k = 0 then a else if k = 1 then b else c)"

text \<open>Modelled from the spec: the operator \<open>decimal * Vector3\<close> of the missing Vector3.h.\<close>

fun scaleV :: "decimal \<Rightarrow> Vector3 \<Rightarrow> Vector3" where
  "scaleV k (Vector3 a b c) = Vector3 (k * a) (k * b) (k * c)"

text \<open>Modelled from the spec: \<open>Vector3::cross\<close> of the missing Vector3.h, the cross
  product written \<open>\<times>\<close> in the spec.\<close>

fun cross :: "Vector3 \<Rightarrow> Vector3 \<Rightarrow> Vector3" where
  "cross (Vector3 a b c) (Vector3 d e f) =
     Vector3 (b * f - c * e) (c * d - a * f) (a * e - b * d)"

text \<open>Modelled from the spec: the class Matrix3x3 (mathematics/Matrix3x3.h is not among
  the sources), nine decimals in row-major order as its constructor takes them, with the
  matrix sum and the matrix product.\<close>

datatype Matrix3x3 =
  Matrix3x3 decimal decimal decimal decimal decimal decimal decimal decimal decimal

instantiation Matrix3x3 :: "{zero, plus, times}"
begin

definition zero_Matrix3x3 :: Matrix3x3 where
  "zero_Matrix3x3 = Matrix3x3 0 0 0 0 0 0 0 0 0"

fun plus_Matrix3x3 :: "Matrix3x3 \<Rightarrow> Matrix3x3 \<Rightarrow> Matrix3x3" where
  "plus_Matrix3x3 (Matrix3x3 a0 a1 a2 a3 a4 a5 a6 a7 a8) (Matrix3x3 b0 b1 b2 b3 b4 b5 b6 b7 b8) =
     Matrix3x3 (a0 + b0) (a1 + b1) (a2 + b2) (a3 + b3) (a4 + b4) (a5 + b5)
               (a6 + b6) (a7 + b7) (a8 + b8)"

fun times_Matrix3x3 :: "Matrix3x3 \<Rightarrow> Matrix3x3 \<Rightarrow> Matrix3x3" where
  "times_Matrix3x3 (Matrix3x3 a0 a1 a2 a3 a4 a5 a6 a7 a8) (Matrix3x3 b0 b1 b2 b3 b4 b5 b6 b7 b8) =
     Matrix3x3 (a0 * b0 + a1 * b3 + a2 * b6) (a0 * b1 + a1 * b4 + a2 * b7) (a0 * b2 + a1 * b5 + a2 * b8)
               (a3 * b0 + a4 * b3 + a5 * b6) (a3 * b1 + a4 * b4 + a5 * b7) (a3 * b2 + a4 * b5 + a5 * b8)
               (a6 * b0 + a7 * b3 + a8 * b6) (a6 * b1 + a7 * b4 + a8 * b7) (a6 * b2 + a7 * b5 + a8 * b8)"

instance ..

end

text \<open>Modelled from the spec: the identity matrix of the missing Matrix3x3.h, against
  which an inverse is checked.\<close>

definition identity :: Matrix3x3 where
  "identity = Matrix3x3 1 0 0 0 1 0 0 0 1"

text \<open>Modelled from the spec: the operator \<open>decimal * Matrix3x3\<close> of the missing
  Matrix3x3.h.\<close>

fun scaleM :: "decimal \<Rightarrow> Matrix3x3 \<Rightarrow> Matrix3x3" where
  "scaleM k (Matrix3x3 a0 a1 a2 a3 a4 a5 a6 a7 a8) =
     Matrix3x3 (k * a0) (k * a1) (k * a2) (k * a3) (k * a4) (k * a5) (k * a6) (k * a7) (k * a8)"

text \<open>Modelled from the spec: the operator \<open>Matrix3x3 * Vector3\<close> of the missing
  Matrix3x3.h, the matrix-vector product.\<close>

fun mulMV :: "Matrix3x3 \<Rightarrow> Vector3 \<Rightarrow> Vector3" where
  "mulMV (Matrix3x3 a0 a1 a2 a3 a4 a5 a6 a7 a8) (Vector3 p q r) =
     Vector3 (a0 * p + a1 * q + a2 * r) (a3 * p + a4 * q + a5 * r) (a6 * p + a7 * q + a8 * r)"

text \<open>Modelled from the spec: \<open>Matrix3x3::getTranspose\<close> of the missing Matrix3x3.h.\<close>

fun getTranspose :: "Matrix3x3 \<Rightarrow> Matrix3x3" where
  "getTranspose (Matrix3x3 a0 a1 a2 a3 a4 a5 a6 a7 a8) = Matrix3x3 a0 a3 a6 a1 a4 a7 a2 a5 a8"

text \<open>Modelled from the spec: \<open>Matrix3x3::getDeterminant\<close> of the missing Matrix3x3.h.\<close>

fun getDeterminant :: "Matrix3x3 \<Rightarrow> decimal" where
  "getDeterminant (Matrix3x3 a0 a1 a2 a3 a4 a5 a6 a7 a8) =
     a0 * (a4 * a8 - a7 * a5) - a1 * (a3 * a8 - a6 * a5) + a2 * (a3 * a7 - a6 * a4)"

text \<open>Modelled from the spec: \<open>Matrix3x3::getInverse(determinant)\<close> of the missing
  Matrix3x3.h, "computed from the cofactor form using the known determinant" (section
  4.2, step 6): the transposed cofactor matrix scaled by the reciprocal of the
  determinant it is given. A zero determinant has no reciprocal: the result is \<open>None\<close>.\<close>

fun getInverse :: "Matrix3x3 \<Rightarrow> decimal \<Rightarrow> Matrix3x3 option" where
  "getInverse (Matrix3x3 a0 a1 a2 a3 a4 a5 a6 a7 a8) determinant =
     (if determinant = 0 then None
      else Some (scaleM (1 / determinant)
        (Matrix3x3 (a4 * a8 - a7 * a5) (- (a1 * a8 - a7 * a2)) (a1 * a5 - a2 * a4)
                   (- (a3 * a8 - a6 * a5)) (a0 * a8 - a6 * a2) (- (a0 * a5 - a3 * a2))
                   (a3 * a7 - a6 * a4) (- (a0 * a7 - a6 * a1)) (a0 * a4 - a1 * a3))))"

text \<open>Modelled from the spec: \<open>Matrix3x3::computeSkewSymmetricMatrixForCrossProduct\<close> of
  the missing Matrix3x3.h, the matrix \<open>skew(r)\<close> of section 4.2, step 4, whose product
  with a vector is the cross product with \<open>r\<close>.\<close>

fun computeSkewSymmetricMatrixForCrossProduct :: "Vector3 \<Rightarrow> Matrix3x3" where
  "computeSkewSymmetricMatrixForCrossProduct (Vector3 a b c) =
     Matrix3x3 0 (- c) b c 0 (- a) (- b) a 0"

text \<open>Modelled from the spec: the class Quaternion (mathematics/Quaternion.h is not
  among the sources), with the components x, y, z, w in the order of its constructor,
  and its componentwise sum.\<close>

datatype Quaternion = Quaternion decimal decimal decimal decimal

instantiation Quaternion :: plus
begin

fun plus_Quaternion :: "Quaternion \<Rightarrow> Quaternion \<Rightarrow> Quaternion" where
  "plus_Quaternion (Quaternion a b c d) (Quaternion e f g h) =
     Quaternion (a + e) (b + f) (c + g) (d + h)"

instance ..

end

text \<open>Modelled from the spec: the operator \<open>Quaternion * Quaternion\<close> of the missing
  Quaternion.h, the quaternion product written \<open>\<otimes>\<close> in section 4.5.\<close>

instantiation Quaternion :: times
begin

fun times_Quaternion :: "Quaternion \<Rightarrow> Quaternion \<Rightarrow> Quaternion" where
  "times_Quaternion (Quaternion a b c d) (Quaternion e f g h) =
     Quaternion (d * e + h * a + b * g - c * f)
                (d * f + h * b + c * e - a * g)
                (d * g + h * c + a * f - b * e)
                (d * h - a * e - b * f - c * g)"

instance ..

end

text \<open>Modelled from the spec: the constructor \<open>Quaternion(w, v)\<close> of the missing
  Quaternion.h; \<open>Quaternion(0, \<omega>)\<close> is the pure quaternion \<open>(0, \<omega>)\<close> of section 4.5.\<close>

fun QuaternionWV :: "decimal \<Rightarrow> Vector3 \<Rightarrow> Quaternion" where
  "QuaternionWV w (Vector3 a b c) = Quaternion a b c w"

text \<open>Modelled from the spec: the operator \<open>Quaternion * decimal\<close> of the missing
  Quaternion.h.\<close>

fun scaleQ :: "Quaternion \<Rightarrow> decimal \<Rightarrow> Quaternion" where
  "scaleQ (Quaternion a b c d) k = Quaternion (a * k) (b * k) (c * k) (d * k)"

text \<open>Modelled from the spec: \<open>Quaternion::lengthSquare\<close> and \<open>Quaternion::length\<close> of the
  missing Quaternion.h, the norm \<open>\<parallel>q\<parallel>\<close> of section 8.\<close>

fun lengthSquare :: "Quaternion \<Rightarrow> decimal" where
  "lengthSquare (Quaternion a b c d) = a * a + b * b + c * c + d * d"

definition lengthQ :: "Quaternion \<Rightarrow> decimal" where
  "lengthQ q = sqrt (lengthSquare q)"

text \<open>Modelled from the spec: \<open>Quaternion::normalize\<close> of the missing Quaternion.h, the
  \<open>normalize\<close> of section 4.5, step 6: every component divided by the length. A
  quaternion of length zero has no normalization: the result is \<open>None\<close>.\<close>

definition normalizeQ :: "Quaternion \<Rightarrow> Quaternion option" where
  "normalizeQ q = (let l = lengthQ q in if l = 0 then None else Some (scaleQ q (1 / l)))"

text \<open>Modelled from the spec: \<open>Quaternion::getConjugate\<close> of the missing Quaternion.h.\<close>

fun getConjugate :: "Quaternion \<Rightarrow> Quaternion" where
  "getConjugate (Quaternion a b c d) = Quaternion (- a) (- b) (- c) d"

text \<open>Modelled from the spec: \<open>Quaternion::getVectorV\<close> of the missing Quaternion.h.\<close>

fun getVectorV :: "Quaternion \<Rightarrow> Vector3" where
  "getVectorV (Quaternion a b c d) = Vector3 a b c"

text \<open>Modelled from the spec: the operator \<open>Quaternion * Vector3\<close> of the missing
  Quaternion.h, "quaternion rotating a vector" (section 4.2, step 3): the vector part of
  \<open>q \<otimes> (0, p) \<otimes> conjugate q\<close>.\<close>

definition mulQV :: "Quaternion \<Rightarrow> Vector3 \<Rightarrow> Vector3" where
  "mulQV q p = getVectorV ((q * QuaternionWV 0 p) * getConjugate q)"

text \<open>Modelled from the spec: \<open>Quaternion::getMatrix\<close> of the missing Quaternion.h, the
  rotation matrix \<open>R\<close> of the orientation (section 4.5, step 1): with \<open>s = 2 / \<parallel>q\<parallel>\<^sup>2\<close>, and
  \<open>s = 0\<close> for the zero quaternion.\<close>

fun getMatrix :: "Quaternion \<Rightarrow> Matrix3x3" where
  "getMatrix (Quaternion a b c d) =
     (let nQ = a * a + b * b + c * c + d * d;
          s = (if nQ > 0 then 2 / nQ else 0)
      in Matrix3x3 (1 - b * b * s - c * c * s) (a * b * s - d * c * s) (a * c * s + d * b * s)
                   (a * b * s + d * c * s) (1 - a * a * s - c * c * s) (b * c * s - d * a * s)
                   (a * c * s - d * b * s) (b * c * s + d * a * s) (1 - a * a * s - b * b * s))"

text \<open>Modelled from the spec: \<open>RigidBody::computeWorldInertiaTensorInverse\<close> (body/RigidBody.h
  is not among the sources), the "rotation matrix sandwich \<open>R \<cdot> I_local \<cdot> R\<^sup>T\<close>" of
  section 4.5, step 1, with the local inverse inertia tensor a 3x3 matrix (section 3).\<close>

definition computeWorldInertiaTensorInverse :: "Matrix3x3 \<Rightarrow> Matrix3x3 \<Rightarrow> Matrix3x3" where
  "computeWorldInertiaTensorInverse orientation inverseInertiaTensorLocal =
     orientation * inverseInertiaTensorLocal * getTranspose orientation"

section \<open>The component store\<close>

type_synonym Entity = nat

datatype BodyType = STATIC | KINEMATIC | DYNAMIC

datatype JointsPositionCorrectionTechnique = BAUMGARTE_JOINTS | NON_LINEAR_GAUSS_SEIDEL

text \<open>Modelled from the spec: the base class Components (components/Components.h is not
  among the sources) of section 4.1: a handle-to-row map and the row counts; "enabled
  components occupy rows \<open>[0, count)\<close>; disabled components live beyond". A column of a
  component family is an array indexed by the row, here a function of the row.\<close>

record Components =
  mNbComponents :: nat
  mDisabledStartIndex :: nat
  mMapEntityToComponentIndex :: "Entity \<rightharpoonup> nat"

text \<open>Modelled from the spec: \<open>Components::getNbEnabledComponents\<close> of the missing
  Components.h.\<close>

definition getNbEnabledComponents :: "'a Components_scheme \<Rightarrow> nat" where
  "getNbEnabledComponents c = mDisabledStartIndex c"

text \<open>Modelled from the spec: \<open>Components::getEntityIndex\<close> of the missing Components.h,
  the row of a handle. A handle without a row of the family ("mismatched handle", section
  7) is a failed precondition: the result is \<open>None\<close>.\<close>

definition getEntityIndex :: "'a Components_scheme \<Rightarrow> Entity \<Rightarrow> nat option" where
  "getEntityIndex c entity =
     (case mMapEntityToComponentIndex c entity of
        None \<Rightarrow> None
      | Some index \<Rightarrow> if index < mNbComponents c then Some index else None)"

text \<open>Modelled from the spec: \<open>Components::getIsEntityDisabled\<close> of the missing
  Components.h: the rows from \<open>mDisabledStartIndex\<close> on are the disabled ones.\<close>

definition getIsEntityDisabled :: "'a Components_scheme \<Rightarrow> Entity \<Rightarrow> bool option" where
  "getIsEntityDisabled c entity =
     do { index \<leftarrow> getEntityIndex c entity; Some (mDisabledStartIndex c \<le> index) }"

text \<open>Modelled from the spec: the columns of RigidBodyComponents
  (components/RigidBodyComponents.h is not among the sources) that the solver reads and
  writes, the fields of RigidBodyComponent in section 3.\<close>

record RigidBodyComponents = Components +
  mBodyTypes :: "nat \<Rightarrow> BodyType"
  mInverseMasses :: "nat \<Rightarrow> decimal"
  mInverseInertiaTensorsLocal :: "nat \<Rightarrow> Matrix3x3"
  mInverseInertiaTensorsWorld :: "nat \<Rightarrow> Matrix3x3"
  mCentersOfMassWorld :: "nat \<Rightarrow> Vector3"
  mLinearLockAxisFactors :: "nat \<Rightarrow> Vector3"
  mAngularLockAxisFactors :: "nat \<Rightarrow> Vector3"
  mConstrainedLinearVelocities :: "nat \<Rightarrow> Vector3"
  mConstrainedAngularVelocities :: "nat \<Rightarrow> Vector3"
  mConstrainedPositions :: "nat \<Rightarrow> Vector3"
  mConstrainedOrientations :: "nat \<Rightarrow> Quaternion"

text \<open>Modelled from the spec: the class Transform (mathematics/Transform.h is not among
  the sources), the "world pose (position + unit quaternion orientation)" of section 3.\<close>

record Transform =
  mPosition :: Vector3
  mOrientation :: Quaternion

text \<open>Modelled from the spec: TransformComponents (components/TransformComponents.h is
  not among the sources), one Transform per row.\<close>

record TransformComponents = Components +
  mTransforms :: "nat \<Rightarrow> Transform"

text \<open>Modelled from the spec: \<open>TransformComponents::getTransform\<close> of the missing
  TransformComponents.h, the transform in the row of a handle.\<close>

definition getTransform :: "TransformComponents \<Rightarrow> Entity \<Rightarrow> Transform option" where
  "getTransform c entity = do { index \<leftarrow> getEntityIndex c entity; Some (mTransforms c index) }"

text \<open>Modelled from the spec: the columns of JointComponents
  (components/JointComponents.h is not among the sources) that the solver reads, the
  fields of JointComponent in section 3.\<close>

record JointComponents = Components +
  mBody1Entities :: "nat \<Rightarrow> Entity"
  mBody2Entities :: "nat \<Rightarrow> Entity"
  mPositionCorrectionTechniques :: "nat \<Rightarrow> JointsPositionCorrectionTechnique"

text \<open>Modelled from the spec: the columns of BallAndSocketJointComponents
  (components/BallAndSocketJointComponents.h is not among the sources), the fields of
  BallAndSocketJointComponent in section 3.\<close>

record BallAndSocketJointComponents = Components +
  mJointEntities :: "nat \<Rightarrow> Entity"
  mLocalAnchorPointBody1 :: "nat \<Rightarrow> Vector3"
  mLocalAnchorPointBody2 :: "nat \<Rightarrow> Vector3"
  mR1World :: "nat \<Rightarrow> Vector3"
  mR2World :: "nat \<Rightarrow> Vector3"
  mI1 :: "nat \<Rightarrow> Matrix3x3"
  mI2 :: "nat \<Rightarrow> Matrix3x3"
  mBiasVector :: "nat \<Rightarrow> Vector3"
  mInverseMassMatrix :: "nat \<Rightarrow> Matrix3x3"
  mImpulse :: "nat \<Rightarrow> Vector3"

section \<open>SolveBallAndSocketJointSystem\<close>

text \<open>
  The members of the system, from its constructor (SolveBallAndSocketJointSystem.cpp,
  lines 37 to 45). The component stores are references in the source; the system is the
  only writer during a step, so the embedding holds them by value and every operation
  returns the system with the stores it has updated. \<open>mWorld\<close> is never read.
\<close>

record SolveBallAndSocketJointSystem =
  mRigidBodyComponents :: RigidBodyComponents
  mTransformComponents :: TransformComponents
  mJointComponents :: JointComponents
  mBallAndSocketJointComponents :: BallAndSocketJointComponents
  mTimeStep :: decimal
  mIsWarmStartingActive :: bool

definition BETA :: decimal where
  "BETA = 0.2"

text \<open>
  The loop \<open>for (uint32 i=0; i < nbJoints; i++)\<close> of the four operations: the body runs
  on the rows \<open>i, i + 1, ...\<close> below \<open>nbJoints\<close> in this order, and a body that fails ends
  the loop.
\<close>

function forEachJoint :: "(nat \<Rightarrow> 's \<Rightarrow> 's option) \<Rightarrow> nat \<Rightarrow> nat \<Rightarrow> 's \<Rightarrow> 's option" where
  "forEachJoint body i nbJoints s =
     (if i < nbJoints
      then (case body i s of None \<Rightarrow> None | Some s' \<Rightarrow> forEachJoint body (i + 1) nbJoints s')
      else Some s)"
  by pat_completeness auto
termination
  by (relation "measure (\<lambda>(body, i, nbJoints, s). nbJoints - i)") auto

declare forEachJoint.simps [simp del]

text \<open>
  The effective-mass matrix \<open>K = JM\<^sup>-\<^sup>1J\<^sup>t\<close>, the expression of lines 92 to 96 and of lines
  269 to 273.
\<close>

definition massMatrixK :: "decimal \<Rightarrow> Vector3 \<Rightarrow> Vector3 \<Rightarrow> Matrix3x3 \<Rightarrow> Matrix3x3 \<Rightarrow> Matrix3x3" where
  "massMatrixK inverseMassBodies r1World r2World i1 i2 =
     (let skewSymmetricMatrixU1 = computeSkewSymmetricMatrixForCrossProduct r1World;
          skewSymmetricMatrixU2 = computeSkewSymmetricMatrixForCrossProduct r2World
      in Matrix3x3 inverseMassBodies 0 0
                   0 inverseMassBodies 0
                   0 0 inverseMassBodies +
         skewSymmetricMatrixU1 * i1 * getTranspose skewSymmetricMatrixU1 +
         skewSymmetricMatrixU2 * i2 * getTranspose skewSymmetricMatrixU2)"

text \<open>The rows of the joint entity and of its two bodies, as the first lines of a loop
  body resolve them (lines 56 to 64, 133 to 140 and 178 to 185): the row in JointComponents and the two rows in
  RigidBodyComponents.\<close>

definition jointRows :: "SolveBallAndSocketJointSystem \<Rightarrow> nat \<Rightarrow> (nat \<times> nat \<times> nat) option" where
  "jointRows s i = do {
     let jointEntity = mJointEntities (mBallAndSocketJointComponents s) i;
     jointIndex \<leftarrow> getEntityIndex (mJointComponents s) jointEntity;
     let body1Entity = mBody1Entities (mJointComponents s) jointIndex;
     let body2Entity = mBody2Entities (mJointComponents s) jointIndex;
     componentIndexBody1 \<leftarrow> getEntityIndex (mRigidBodyComponents s) body1Entity;
     componentIndexBody2 \<leftarrow> getEntityIndex (mRigidBodyComponents s) body2Entity;
     Some (jointIndex, componentIndexBody1, componentIndexBody2)
   }"

text \<open>
  The assignments to the cached fields of the joint row \<open>i\<close> at the head of a loop body:
  \<open>mI1[i]\<close>, \<open>mI2[i]\<close>, \<open>mR1World[i]\<close> and \<open>mR2World[i]\<close> (lines 70 to 78 of
  \<open>initBeforeSolve\<close>, lines 244 to 254 of \<open>solvePositionConstraint\<close>), then
  \<open>mInverseMassMatrix[i].setToZero()\<close> (line 99, line 274). The right-hand sides read
  the bodies and the local anchors only, so the values are computed by the caller.
\<close>

definition setJointGeometry ::
  "BallAndSocketJointComponents \<Rightarrow> nat \<Rightarrow> Matrix3x3 \<Rightarrow> Matrix3x3 \<Rightarrow> Vector3 \<Rightarrow> Vector3
     \<Rightarrow> BallAndSocketJointComponents" where
  "setJointGeometry bs i i1 i2 r1World r2World =
     (let bs = bs\<lparr>mI1 := (mI1 bs)(i := i1)\<rparr>;
          bs = bs\<lparr>mI2 := (mI2 bs)(i := i2)\<rparr>;
          bs = bs\<lparr>mR1World := (mR1World bs)(i := r1World)\<rparr>;
          bs = bs\<lparr>mR2World := (mR2World bs)(i := r2World)\<rparr>;
          bs = bs\<lparr>mInverseMassMatrix := (mInverseMassMatrix bs)(i := 0)\<rparr>
      in bs)"

text \<open>
  The statements guarded by the test of the body types (lines 102 to 105, lines 278 to
  281): the inverse of the mass matrix is stored when one of the two bodies is DYNAMIC.
\<close>

definition setInverseMassMatrix ::
  "BallAndSocketJointComponents \<Rightarrow> nat \<Rightarrow> Matrix3x3 \<Rightarrow> decimal \<Rightarrow> BodyType \<Rightarrow> BodyType
     \<Rightarrow> BallAndSocketJointComponents option" where
  "setInverseMassMatrix bs i massMatrix massMatrixDeterminant bodyType1 bodyType2 =
     (if bodyType1 = DYNAMIC \<or> bodyType2 = DYNAMIC
      then do {
        inverse \<leftarrow> getInverse massMatrix massMatrixDeterminant;
        Some (bs\<lparr>mInverseMassMatrix := (mInverseMassMatrix bs)(i := inverse)\<rparr>) }
      else Some bs)"

text \<open>
  The bias of the constraint (lines 112 to 115) and the reset of the accumulated impulse
  (lines 118 to 122).
\<close>

definition setBiasVector ::
  "BallAndSocketJointComponents \<Rightarrow> nat \<Rightarrow> JointsPositionCorrectionTechnique \<Rightarrow> decimal
     \<Rightarrow> Vector3 \<Rightarrow> Vector3 \<Rightarrow> Vector3 \<Rightarrow> Vector3 \<Rightarrow> BallAndSocketJointComponents" where
  "setBiasVector bs i technique biasFactor x1 x2 r1World r2World =
     (let bs = bs\<lparr>mBiasVector := (mBiasVector bs)(i := 0)\<rparr>
      in if technique = BAUMGARTE_JOINTS
         then bs\<lparr>mBiasVector := (mBiasVector bs)(i := scaleV biasFactor (x2 + r2World - x1 - r1World))\<rparr>
         else bs)"

definition resetImpulse ::
  "BallAndSocketJointComponents \<Rightarrow> nat \<Rightarrow> bool \<Rightarrow> BallAndSocketJointComponents" where
  "resetImpulse bs i isWarmStartingActive =
     (if \<not> isWarmStartingActive then bs\<lparr>mImpulse := (mImpulse bs)(i := 0)\<rparr> else bs)"

text \<open>
  The body of the loop of \<open>initBeforeSolve\<close> (lines 56 to 122) on the joint row \<open>i\<close>. The
  determinant threshold \<open>MACHINE_EPSILON\<close> is a constant of the missing configuration
  header and is a parameter here. The two assertions of lines 66 and 67 fail for a
  disabled body.
\<close>

definition initBeforeSolveJoint ::
  "decimal \<Rightarrow> decimal \<Rightarrow> nat \<Rightarrow> SolveBallAndSocketJointSystem \<Rightarrow> SolveBallAndSocketJointSystem option" where
  "initBeforeSolveJoint MACHINE_EPSILON biasFactor i s = do {
     (jointIndex, componentIndexBody1, componentIndexBody2) \<leftarrow> jointRows s i;
     let rb = mRigidBodyComponents s;
     let bs = mBallAndSocketJointComponents s;
     let body1Entity = mBody1Entities (mJointComponents s) jointIndex;
     let body2Entity = mBody2Entities (mJointComponents s) jointIndex;
     disabled1 \<leftarrow> getIsEntityDisabled rb body1Entity;
     disabled2 \<leftarrow> getIsEntityDisabled rb body2Entity;
     if disabled1 \<or> disabled2 then None else do {
       transform1 \<leftarrow> getTransform (mTransformComponents s) body1Entity;
       transform2 \<leftarrow> getTransform (mTransformComponents s) body2Entity;
       let orientationBody1 = mOrientation transform1;
       let orientationBody2 = mOrientation transform2;
       let r1World = mulQV orientationBody1 (mLocalAnchorPointBody1 bs i);
       let r2World = mulQV orientationBody2 (mLocalAnchorPointBody2 bs i);
       let i1 = mInverseInertiaTensorsWorld rb componentIndexBody1;
       let i2 = mInverseInertiaTensorsWorld rb componentIndexBody2;
       let body1MassInverse = mInverseMasses rb componentIndexBody1;
       let body2MassInverse = mInverseMasses rb componentIndexBody2;
       let inverseMassBodies = body1MassInverse + body2MassInverse;
       let massMatrix = massMatrixK inverseMassBodies r1World r2World i1 i2;
       let bs = setJointGeometry bs i i1 i2 r1World r2World;
       let massMatrixDeterminant = getDeterminant massMatrix;
       bs \<leftarrow> (if \<bar>massMatrixDeterminant\<bar> > MACHINE_EPSILON
              then setInverseMassMatrix bs i massMatrix massMatrixDeterminant
                     (mBodyTypes rb componentIndexBody1) (mBodyTypes rb componentIndexBody2)
              else Some bs);
       let x1 = mCentersOfMassWorld rb componentIndexBody1;
       let x2 = mCentersOfMassWorld rb componentIndexBody2;
       let bs = setBiasVector bs i (mPositionCorrectionTechniques (mJointComponents s) jointIndex)
                  biasFactor x1 x2 r1World r2World;
       let bs = resetImpulse bs i (mIsWarmStartingActive s);
       Some (s\<lparr>mBallAndSocketJointComponents := bs\<rparr>)
     }
   }"

text \<open>
  \<open>initBeforeSolve\<close> (lines 48 to 124). The bias factor \<open>BETA / mTimeStep\<close> of a zero time
  step is an infinity of the floating-point type, which the reals do not have ("a zero
  \<open>dt\<close> is rejected by the caller", section 4.7): the result is \<open>None\<close>.
\<close>

definition initBeforeSolve ::
  "decimal \<Rightarrow> SolveBallAndSocketJointSystem \<Rightarrow> SolveBallAndSocketJointSystem option" where
  "initBeforeSolve MACHINE_EPSILON s =
     (if mTimeStep s = 0 then None
      else let biasFactor = BETA / mTimeStep s;
               nbJoints = getNbEnabledComponents (mBallAndSocketJointComponents s)
           in forEachJoint (initBeforeSolveJoint MACHINE_EPSILON biasFactor) 0 nbJoints s)"

text \<open>The statements of lines 154 to 167 of \<open>warmstart\<close>, which lines 203 to 216 of
  \<open>solveVelocityConstraint\<close> repeat with \<open>deltaLambda\<close> in the place of \<open>mImpulse[i]\<close>: the
  impulse \<open>P = J\<^sup>T * lambda\<close> applied to the two bodies. The velocities \<open>v1, v2, w1, w2\<close> are
  references into the columns of the bodies: each \<open>+=\<close> reads the column as the statements
  before it have left it, so that a joint whose two bodies are one row accumulates both
  impulses there, as the source does.\<close>

definition applyImpulse ::
  "RigidBodyComponents \<Rightarrow> nat \<Rightarrow> nat \<Rightarrow> Vector3 \<Rightarrow> Vector3 \<Rightarrow> Matrix3x3 \<Rightarrow> Matrix3x3 \<Rightarrow> Vector3
     \<Rightarrow> RigidBodyComponents" where
  "applyImpulse rb componentIndexBody1 componentIndexBody2 r1World r2World i1 i2 impulse =
     (let linearImpulseBody1 = - impulse;
          angularImpulseBody1 = cross impulse r1World;
          rb = rb\<lparr>mConstrainedLinearVelocities := (mConstrainedLinearVelocities rb)
                 (componentIndexBody1 := mConstrainedLinearVelocities rb componentIndexBody1 +
                    scaleV (mInverseMasses rb componentIndexBody1)
                      (mLinearLockAxisFactors rb componentIndexBody1) * linearImpulseBody1)\<rparr>;
          rb = rb\<lparr>mConstrainedAngularVelocities := (mConstrainedAngularVelocities rb)
                 (componentIndexBody1 := mConstrainedAngularVelocities rb componentIndexBody1 +
                    mAngularLockAxisFactors rb componentIndexBody1 * mulMV i1 angularImpulseBody1)\<rparr>;
          angularImpulseBody2 = - cross impulse r2World;
          rb = rb\<lparr>mConstrainedLinearVelocities := (mConstrainedLinearVelocities rb)
                 (componentIndexBody2 := mConstrainedLinearVelocities rb componentIndexBody2 +
                    scaleV (mInverseMasses rb componentIndexBody2)
                      (mLinearLockAxisFactors rb componentIndexBody2) * impulse)\<rparr>;
          rb = rb\<lparr>mConstrainedAngularVelocities := (mConstrainedAngularVelocities rb)
                 (componentIndexBody2 := mConstrainedAngularVelocities rb componentIndexBody2 +
                    mAngularLockAxisFactors rb componentIndexBody2 * mulMV i2 angularImpulseBody2)\<rparr>
      in rb)"

text \<open>The body of the loop of \<open>warmstart\<close> (lines 133 to 167) on the joint row \<open>i\<close>.\<close>

definition warmstartJoint ::
  "nat \<Rightarrow> SolveBallAndSocketJointSystem \<Rightarrow> SolveBallAndSocketJointSystem option" where
  "warmstartJoint i s = do {
     (jointIndex, componentIndexBody1, componentIndexBody2) \<leftarrow> jointRows s i;
     let rb = mRigidBodyComponents s;
     let bs = mBallAndSocketJointComponents s;
     let r1World = mR1World bs i;
     let r2World = mR2World bs i;
     let i1 = mI1 bs i;
     let i2 = mI2 bs i;
     let rb = applyImpulse rb componentIndexBody1 componentIndexBody2 r1World r2World i1 i2
                (mImpulse bs i);
     Some (s\<lparr>mRigidBodyComponents := rb\<rparr>)
   }"

text \<open>\<open>warmstart\<close> (lines 127 to 169).\<close>

definition warmstart ::
  "SolveBallAndSocketJointSystem \<Rightarrow> SolveBallAndSocketJointSystem option" where
  "warmstart s =
     (let nbJoints = getNbEnabledComponents (mBallAndSocketJointComponents s)
      in forEachJoint warmstartJoint 0 nbJoints s)"

text \<open>The constraint velocity \<open>Jv\<close> of line 197 and the Lagrange multiplier increment
  \<open>deltaLambda\<close> of line 200, for the joint row \<open>i\<close> and the body rows
  \<open>componentIndexBody1\<close> and \<open>componentIndexBody2\<close>.\<close>

definition Jv_of :: "SolveBallAndSocketJointSystem \<Rightarrow> nat \<Rightarrow> nat \<Rightarrow> nat \<Rightarrow> Vector3" where
  "Jv_of s i componentIndexBody1 componentIndexBody2 =
     (let rb = mRigidBodyComponents s;
          bs = mBallAndSocketJointComponents s;
          v1 = mConstrainedLinearVelocities rb componentIndexBody1;
          v2 = mConstrainedLinearVelocities rb componentIndexBody2;
          w1 = mConstrainedAngularVelocities rb componentIndexBody1;
          w2 = mConstrainedAngularVelocities rb componentIndexBody2
      in v2 + cross w2 (mR2World bs i) - v1 - cross w1 (mR1World bs i))"

definition deltaLambda_of :: "SolveBallAndSocketJointSystem \<Rightarrow> nat \<Rightarrow> nat \<Rightarrow> nat \<Rightarrow> Vector3" where
  "deltaLambda_of s i componentIndexBody1 componentIndexBody2 =
     (let bs = mBallAndSocketJointComponents s
      in mulMV (mInverseMassMatrix bs i)
           (- Jv_of s i componentIndexBody1 componentIndexBody2 - mBiasVector bs i))"

text \<open>The body of the loop of \<open>solveVelocityConstraint\<close> (lines 178 to 216) on the joint
  row \<open>i\<close>.\<close>

definition solveVelocityConstraintJoint ::
  "nat \<Rightarrow> SolveBallAndSocketJointSystem \<Rightarrow> SolveBallAndSocketJointSystem option" where
  "solveVelocityConstraintJoint i s = do {
     (jointIndex, componentIndexBody1, componentIndexBody2) \<leftarrow> jointRows s i;
     let rb = mRigidBodyComponents s;
     let bs = mBallAndSocketJointComponents s;
     let i1 = mI1 bs i;
     let i2 = mI2 bs i;
     let deltaLambda = deltaLambda_of s i componentIndexBody1 componentIndexBody2;
     let bs = bs\<lparr>mImpulse := (mImpulse bs)(i := mImpulse bs i + deltaLambda)\<rparr>;
     let rb = applyImpulse rb componentIndexBody1 componentIndexBody2 (mR1World bs i) (mR2World bs i)
                i1 i2 deltaLambda;
     Some (s\<lparr>mRigidBodyComponents := rb, mBallAndSocketJointComponents := bs\<rparr>)
   }"

text \<open>\<open>solveVelocityConstraint\<close> (lines 172 to 218).\<close>

definition solveVelocityConstraint ::
  "SolveBallAndSocketJointSystem \<Rightarrow> SolveBallAndSocketJointSystem option" where
  "solveVelocityConstraint s =
     (let nbJoints = getNbEnabledComponents (mBallAndSocketJointComponents s)
      in forEachJoint solveVelocityConstraintJoint 0 nbJoints s)"

text \<open>The statements \<open>q += Quaternion(0, w) * q * decimal(0.5); q.normalize();\<close> of lines 304
  and 305 and of lines 316 and 317, on the orientation \<open>q\<close> and the pseudo-velocity \<open>w\<close>.\<close>

definition integrateOrientation :: "Quaternion \<Rightarrow> Vector3 \<Rightarrow> Quaternion option" where
  "integrateOrientation q w = normalizeQ (q + scaleQ (QuaternionWV 0 w * q) 0.5)"

text \<open>The statements of lines 294 to 317: the pseudo-impulse \<open>lambda\<close> applied to the
  positions and the orientations of the two bodies. The positions \<open>x1, x2\<close> and the
  orientations \<open>q1, q2\<close> are references into the columns of the bodies, read as the
  statements before have left them.\<close>

definition applyPseudoImpulse ::
  "RigidBodyComponents \<Rightarrow> nat \<Rightarrow> nat \<Rightarrow> Vector3 \<Rightarrow> Vector3 \<Rightarrow> Matrix3x3 \<Rightarrow> Matrix3x3 \<Rightarrow> Vector3
     \<Rightarrow> RigidBodyComponents option" where
  "applyPseudoImpulse rb componentIndexBody1 componentIndexBody2 r1World r2World i1 i2 lambda = do {
     let inverseMassBody1 = mInverseMasses rb componentIndexBody1;
     let inverseMassBody2 = mInverseMasses rb componentIndexBody2;
     let linearImpulseBody1 = - lambda;
     let angularImpulseBody1 = cross lambda r1World;
     let v1 = scaleV inverseMassBody1 (mLinearLockAxisFactors rb componentIndexBody1) *
              linearImpulseBody1;
     let w1 = mAngularLockAxisFactors rb componentIndexBody1 * mulMV i1 angularImpulseBody1;
     let rb = rb\<lparr>mConstrainedPositions := (mConstrainedPositions rb)
                (componentIndexBody1 := mConstrainedPositions rb componentIndexBody1 + v1)\<rparr>;
     q1 \<leftarrow> integrateOrientation (mConstrainedOrientations rb componentIndexBody1) w1;
     let rb = rb\<lparr>mConstrainedOrientations := (mConstrainedOrientations rb)
                (componentIndexBody1 := q1)\<rparr>;
     let angularImpulseBody2 = - cross lambda r2World;
     let v2 = scaleV inverseMassBody2 (mLinearLockAxisFactors rb componentIndexBody2) * lambda;
     let w2 = mAngularLockAxisFactors rb componentIndexBody2 * mulMV i2 angularImpulseBody2;
     let rb = rb\<lparr>mConstrainedPositions := (mConstrainedPositions rb)
                (componentIndexBody2 := mConstrainedPositions rb componentIndexBody2 + v2)\<rparr>;
     q2 \<leftarrow> integrateOrientation (mConstrainedOrientations rb componentIndexBody2) w2;
     let rb = rb\<lparr>mConstrainedOrientations := (mConstrainedOrientations rb)
                (componentIndexBody2 := q2)\<rparr>;
     Some rb
   }"

text \<open>The body of the loop of \<open>solvePositionConstraint\<close> (lines 227 to 318) on the joint row
  \<open>i\<close>; a joint of another correction technique is skipped by the \<open>continue\<close> of line
  232.\<close>

definition solvePositionConstraintJoint ::
  "decimal \<Rightarrow> nat \<Rightarrow> SolveBallAndSocketJointSystem \<Rightarrow> SolveBallAndSocketJointSystem option" where
  "solvePositionConstraintJoint MACHINE_EPSILON i s = do {
     let rb = mRigidBodyComponents s;
     let bs = mBallAndSocketJointComponents s;
     let jointEntity = mJointEntities bs i;
     jointIndex \<leftarrow> getEntityIndex (mJointComponents s) jointEntity;
     if mPositionCorrectionTechniques (mJointComponents s) jointIndex \<noteq> NON_LINEAR_GAUSS_SEIDEL
     then Some s
     else do {
       let body1Entity = mBody1Entities (mJointComponents s) jointIndex;
       let body2Entity = mBody2Entities (mJointComponents s) jointIndex;
       componentIndexBody1 \<leftarrow> getEntityIndex rb body1Entity;
       componentIndexBody2 \<leftarrow> getEntityIndex rb body2Entity;
       let q1 = mConstrainedOrientations rb componentIndexBody1;
       let q2 = mConstrainedOrientations rb componentIndexBody2;
       let i1 = computeWorldInertiaTensorInverse (getMatrix q1)
                  (mInverseInertiaTensorsLocal rb componentIndexBody1);
       let i2 = computeWorldInertiaTensorInverse (getMatrix q2)
                  (mInverseInertiaTensorsLocal rb componentIndexBody2);
       let r1World = mulQV q1 (mLocalAnchorPointBody1 bs i);
       let r2World = mulQV q2 (mLocalAnchorPointBody2 bs i);
       let inverseMassBody1 = mInverseMasses rb componentIndexBody1;
       let inverseMassBody2 = mInverseMasses rb componentIndexBody2;
       let inverseMassBodies = inverseMassBody1 + inverseMassBody2;
       let massMatrix = massMatrixK inverseMassBodies r1World r2World i1 i2;
       let bs = setJointGeometry bs i i1 i2 r1World r2World;
       let massMatrixDeterminant = getDeterminant massMatrix;
       if \<bar>massMatrixDeterminant\<bar> > MACHINE_EPSILON then do {
         bs \<leftarrow> setInverseMassMatrix bs i massMatrix massMatrixDeterminant
                (mBodyTypes rb componentIndexBody1) (mBodyTypes rb componentIndexBody2);
         let constraintError = mConstrainedPositions rb componentIndexBody2 + r2World -
                               mConstrainedPositions rb componentIndexBody1 - r1World;
         let lambda = mulMV (mInverseMassMatrix bs i) (- constraintError);
         rb \<leftarrow> applyPseudoImpulse rb componentIndexBody1 componentIndexBody2 r1World r2World
                i1 i2 lambda;
         Some (s\<lparr>mRigidBodyComponents := rb, mBallAndSocketJointComponents := bs\<rparr>)
       }
       else Some (s\<lparr>mBallAndSocketJointComponents := bs\<rparr>)
     }
   }"

text \<open>\<open>solvePositionConstraint\<close> (lines 221 to 320).\<close>

definition solvePositionConstraint ::
  "decimal \<Rightarrow> SolveBallAndSocketJointSystem \<Rightarrow> SolveBallAndSocketJointSystem option" where
  "solvePositionConstraint MACHINE_EPSILON s =
     (let nbEnabledJoints = getNbEnabledComponents (mBallAndSocketJointComponents s)
      in forEachJoint (solvePositionConstraintJoint MACHINE_EPSILON) 0 nbEnabledJoints s)"

text \<open>Modelled from the spec: the time-stepper (engine/PhysicsWorld.cpp is not among the
  sources), which runs a solver pass a given number of times, the "M \<times> Position Solver"
  of section 2.\<close>

fun iterations :: "nat \<Rightarrow> ('s \<Rightarrow> 's option) \<Rightarrow> 's \<Rightarrow> 's option" where
  "iterations 0 pass s = Some s"
| "iterations (Suc n) pass s = (case pass s of None \<Rightarrow> None | Some s' \<Rightarrow> iterations n pass s')"

section \<open>The legacy ConstraintSolver\<close>

text \<open>
  The members of the class ConstraintSolver (engine/ConstraintSolver.h, lines 53 to 85)
  that its inline member functions read or write. A \<open>Body*\<close> and a \<open>Constraint*\<close> are
  addresses, \<open>uint\<close> is a 32-bit unsigned integer, and the array \<open>Vconstraint\<close> of
  \<open>6*NB_MAX_BODIES\<close> doubles is a function of the index. The matrices and vectors of the
  LCP problem, written only by the member functions declared and not defined in the
  header, are left out.
\<close>

type_synonym Body = nat

type_synonym Constraint = nat

record ConstraintSolver =
  activeConstraints :: "Constraint list"
  nbIterationsLCP :: "32 word"
  nbConstraints :: "32 word"
  nbBodies :: "32 word"
  penetrationFactor :: real
  constraintBodies :: "Body set"
  bodyNumberMapping :: "Body \<rightharpoonup> 32 word"
  Vconstraint :: "nat \<Rightarrow> real"

text \<open>\<open>isConstrainedBody\<close> (lines 109 to 114).\<close>

definition isConstrainedBody :: "ConstraintSolver \<Rightarrow> Body \<Rightarrow> bool" where
  "isConstrainedBody cs body = (if body \<in> constraintBodies cs then True else False)"

text \<open>The expression \<open>bodyNumberMapping[body]\<close> of lines 119 and 127: \<open>operator[]\<close> of a
  \<open>std::map\<close> inserts the key with the value zero when the map does not have it.\<close>

definition bodyNumberMappingAt :: "ConstraintSolver \<Rightarrow> Body \<Rightarrow> 32 word \<times> ConstraintSolver" where
  "bodyNumberMappingAt cs body =
     (case bodyNumberMapping cs body of
        Some n \<Rightarrow> (n, cs)
      | None \<Rightarrow> (0, cs\<lparr>bodyNumberMapping := (bodyNumberMapping cs)(body \<mapsto> 0)\<rparr>))"

text \<open>A read of the array \<open>Vconstraint\<close>, whose size \<open>6*NB_MAX_BODIES\<close> comes from the
  missing constants.h and is a parameter: a read past its end has no defined result.\<close>

definition VconstraintAt :: "nat \<Rightarrow> ConstraintSolver \<Rightarrow> 32 word \<Rightarrow> real option" where
  "VconstraintAt NB_MAX_BODIES cs index =
     (if unat index < 6 * NB_MAX_BODIES then Some (Vconstraint cs (unat index)) else None)"

text \<open>\<open>getConstrainedLinearVelocityOfBody\<close> (lines 117 to 121): the assertion of line 118
  fails for a body that is not constrained.\<close>

definition getConstrainedLinearVelocityOfBody ::
  "nat \<Rightarrow> ConstraintSolver \<Rightarrow> Body \<Rightarrow> (Vector3 \<times> ConstraintSolver) option" where
  "getConstrainedLinearVelocityOfBody NB_MAX_BODIES cs body =
     (if \<not> isConstrainedBody cs body then None
      else do {
        let (n, cs) = bodyNumberMappingAt cs body;
        let indexBodyArray = 6 * n;
        a \<leftarrow> VconstraintAt NB_MAX_BODIES cs indexBodyArray;
        b \<leftarrow> VconstraintAt NB_MAX_BODIES cs (indexBodyArray + 1);
        c \<leftarrow> VconstraintAt NB_MAX_BODIES cs (indexBodyArray + 2);
        Some (Vector3 a b c, cs)
      })"

text \<open>\<open>getConstrainedAngularVelocityOfBody\<close> (lines 125 to 129).\<close>

definition getConstrainedAngularVelocityOfBody ::
  "nat \<Rightarrow> ConstraintSolver \<Rightarrow> Body \<Rightarrow> (Vector3 \<times> ConstraintSolver) option" where
  "getConstrainedAngularVelocityOfBody NB_MAX_BODIES cs body =
     (if \<not> isConstrainedBody cs body then None
      else do {
        let (n, cs) = bodyNumberMappingAt cs body;
        let indexBodyArray = 6 * n;
        a \<leftarrow> VconstraintAt NB_MAX_BODIES cs (indexBodyArray + 3);
        b \<leftarrow> VconstraintAt NB_MAX_BODIES cs (indexBodyArray + 4);
        c \<leftarrow> VconstraintAt NB_MAX_BODIES cs (indexBodyArray + 5);
        Some (Vector3 a b c, cs)
      })"

text \<open>\<open>cleanup\<close> (lines 132 to 136).\<close>

definition cleanup :: "ConstraintSolver \<Rightarrow> ConstraintSolver" where
  "cleanup cs =
     (let cs = cs\<lparr>bodyNumberMapping := Map.empty\<rparr>;
          cs = cs\<lparr>constraintBodies := {}\<rparr>;
          cs = cs\<lparr>activeConstraints := []\<rparr>
      in cs)"

text \<open>\<open>setPenetrationFactor\<close> (lines 139 to 141) and \<open>setNbLCPIterations\<close> (lines 144 to
  146).\<close>

definition setPenetrationFactor :: "ConstraintSolver \<Rightarrow> real \<Rightarrow> ConstraintSolver" where
  "setPenetrationFactor cs factor = cs\<lparr>penetrationFactor := factor\<rparr>"

definition setNbLCPIterations :: "ConstraintSolver \<Rightarrow> 32 word \<Rightarrow> ConstraintSolver" where
  "setNbLCPIterations cs nbIterations = cs\<lparr>nbIterationsLCP := nbIterations\<rparr>"

section \<open>Notions for the frame properties of the pre-solver\<close>

text \<open>
  \<open>sameInputs s t\<close>: the system \<open>t\<close> has everything that \<open>initBeforeSolve\<close> reads as the
  system \<open>s\<close> has it: the bodies, the transforms, the joints, the time step, the
  warm-start flag and, of the ball-and-socket joints, the rows' handles and local
  anchors. The two systems may differ in the seven columns that the pre-solver writes.
\<close>

definition sameInputs :: "SolveBallAndSocketJointSystem \<Rightarrow> SolveBallAndSocketJointSystem \<Rightarrow> bool" where
  "sameInputs s t =
     (mRigidBodyComponents t = mRigidBodyComponents s \<and>
      mTransformComponents t = mTransformComponents s \<and>
      mJointComponents t = mJointComponents s \<and>
      mTimeStep t = mTimeStep s \<and>
      mIsWarmStartingActive t = mIsWarmStartingActive s \<and>
      mNbComponents (mBallAndSocketJointComponents t) = mNbComponents (mBallAndSocketJointComponents s) \<and>
      mDisabledStartIndex (mBallAndSocketJointComponents t) =
        mDisabledStartIndex (mBallAndSocketJointComponents s) \<and>
      mMapEntityToComponentIndex (mBallAndSocketJointComponents t) =
        mMapEntityToComponentIndex (mBallAndSocketJointComponents s) \<and>
      mJointEntities (mBallAndSocketJointComponents t) = mJointEntities (mBallAndSocketJointComponents s) \<and>
      mLocalAnchorPointBody1 (mBallAndSocketJointComponents t) =
        mLocalAnchorPointBody1 (mBallAndSocketJointComponents s) \<and>
      mLocalAnchorPointBody2 (mBallAndSocketJointComponents t) =
        mLocalAnchorPointBody2 (mBallAndSocketJointComponents s))"

text \<open>
  The seven fields of the joint row \<open>i\<close> that the pre-solver writes.
\<close>

definition jointRow ::
  "BallAndSocketJointComponents \<Rightarrow> nat \<Rightarrow>
     Vector3 \<times> Vector3 \<times> Matrix3x3 \<times> Matrix3x3 \<times> Vector3 \<times> Matrix3x3 \<times> Vector3" where
  "jointRow bs i =
     (mR1World bs i, mR2World bs i, mI1 bs i, mI2 bs i, mBiasVector bs i, mInverseMassMatrix bs i,
      mImpulse bs i)"

section \<open>Example systems\<close>

text \<open>
  Two bodies joined by one ball-and-socket joint. The body of handle 1 is in row 0, with
  inverse mass 1/2, at the origin; the body of handle 2 is in row 1, with inverse mass 1,
  at \<open>(0, -1, 0)\<close>, moving with velocity \<open>(1, 2, 0)\<close>. Both are DYNAMIC, not rotated, with
  the identity as inverse inertia tensor and no locked axis. The joint of handle 3 is in
  row 0; its anchor is the origin of body 1 and the point \<open>(0, 1, 0)\<close> of body 2, and it
  is corrected by the non-linear Gauss-Seidel technique. In \<open>exampleSystem\<close> the fields
  that the solver derives are all zero, as before the first step.
\<close>

definition exampleBodies :: RigidBodyComponents where
  "exampleBodies =
     \<lparr>mNbComponents = 2, mDisabledStartIndex = 2,
      mMapEntityToComponentIndex = [1 \<mapsto> 0, 2 \<mapsto> 1],
      mBodyTypes = (\<lambda>row. DYNAMIC),
      mInverseMasses = (\<lambda>row. 1)(0 := 1 / 2),
      mInverseInertiaTensorsLocal = (\<lambda>row. identity),
      mInverseInertiaTensorsWorld = (\<lambda>row. identity),
      mCentersOfMassWorld = (\<lambda>row. 0)(1 := Vector3 0 (- 1) 0),
      mLinearLockAxisFactors = (\<lambda>row. Vector3 1 1 1),
      mAngularLockAxisFactors = (\<lambda>row. Vector3 1 1 1),
      mConstrainedLinearVelocities = (\<lambda>row. 0)(1 := Vector3 1 2 0),
      mConstrainedAngularVelocities = (\<lambda>row. 0),
      mConstrainedPositions = (\<lambda>row. 0)(1 := Vector3 0 (- 1) 0),
      mConstrainedOrientations = (\<lambda>row. Quaternion 0 0 0 1)\<rparr>"

definition exampleTransforms :: TransformComponents where
  "exampleTransforms =
     \<lparr>mNbComponents = 2, mDisabledStartIndex = 2,
      mMapEntityToComponentIndex = [1 \<mapsto> 0, 2 \<mapsto> 1],
      mTransforms = (\<lambda>row. \<lparr>mPosition = 0, mOrientation = Quaternion 0 0 0 1\<rparr>)
        (1 := \<lparr>mPosition = Vector3 0 (- 1) 0, mOrientation = Quaternion 0 0 0 1\<rparr>)\<rparr>"

definition exampleJoints :: JointComponents where
  "exampleJoints =
     \<lparr>mNbComponents = 1, mDisabledStartIndex = 1,
      mMapEntityToComponentIndex = [3 \<mapsto> 0],
      mBody1Entities = (\<lambda>row. 1),
      mBody2Entities = (\<lambda>row. 2),
      mPositionCorrectionTechniques = (\<lambda>row. NON_LINEAR_GAUSS_SEIDEL)\<rparr>"

definition exampleBallAndSocketJoints :: BallAndSocketJointComponents where
  "exampleBallAndSocketJoints =
     \<lparr>mNbComponents = 1, mDisabledStartIndex = 1,
      mMapEntityToComponentIndex = [3 \<mapsto> 0],
      mJointEntities = (\<lambda>row. 3),
      mLocalAnchorPointBody1 = (\<lambda>row. 0),
      mLocalAnchorPointBody2 = (\<lambda>row. Vector3 0 1 0),
      mR1World = (\<lambda>row. 0),
      mR2World = (\<lambda>row. 0),
      mI1 = (\<lambda>row. 0),
      mI2 = (\<lambda>row. 0),
      mBiasVector = (\<lambda>row. 0),
      mInverseMassMatrix = (\<lambda>row. 0),
      mImpulse = (\<lambda>row. 0)\<rparr>"

definition exampleSystem :: SolveBallAndSocketJointSystem where
  "exampleSystem =
     \<lparr>mRigidBodyComponents = exampleBodies,
      mTransformComponents = exampleTransforms,
      mJointComponents = exampleJoints,
      mBallAndSocketJointComponents = exampleBallAndSocketJoints,
      mTimeStep = 1 / 60,
      mIsWarmStartingActive = True\<rparr>"

text \<open>
  \<open>exampleInitialized\<close>: the example with the derived fields of its joint as the pre-solver
  computes them; \<open>exampleLocked\<close>: the same with the linear y axis of body 2 locked;
  \<open>examplePerturbed\<close>: the example with body 2 displaced to \<open>(1, -1, 0)\<close>, away from the
  anchor; \<open>exampleSingular\<close>: the initialized example with two STATIC bodies of zero inverse
  mass and inertia, whose effective-mass matrix is the zero matrix.
\<close>

definition exampleInitialized :: SolveBallAndSocketJointSystem where
  "exampleInitialized =
     exampleSystem\<lparr>mBallAndSocketJointComponents := exampleBallAndSocketJoints
       \<lparr>mR2World := (\<lambda>row. Vector3 0 1 0),
        mI1 := (\<lambda>row. identity),
        mI2 := (\<lambda>row. identity),
        mInverseMassMatrix := (\<lambda>row. Matrix3x3 (2 / 5) 0 0 0 (2 / 3) 0 0 0 (2 / 5))\<rparr>\<rparr>"

definition exampleLocked :: SolveBallAndSocketJointSystem where
  "exampleLocked =
     exampleInitialized\<lparr>mRigidBodyComponents := exampleBodies
       \<lparr>mLinearLockAxisFactors := (\<lambda>row. Vector3 1 1 1)(1 := Vector3 1 0 1)\<rparr>\<rparr>"

definition examplePerturbed :: SolveBallAndSocketJointSystem where
  "examplePerturbed =
     exampleSystem\<lparr>mRigidBodyComponents := exampleBodies
       \<lparr>mConstrainedPositions := (\<lambda>row. 0)(1 := Vector3 1 (- 1) 0)\<rparr>\<rparr>"

definition exampleSingular :: SolveBallAndSocketJointSystem where
  "exampleSingular =
     exampleInitialized\<lparr>mRigidBodyComponents := exampleBodies
       \<lparr>mBodyTypes := (\<lambda>row. STATIC),
        mInverseMasses := (\<lambda>row. 0),
        mInverseInertiaTensorsLocal := (\<lambda>row. 0)\<rparr>\<rparr>"

section \<open>Properties of the vector, matrix and quaternion operations\<close>

lemma mulMV_zero [simp]: "mulMV 0 v = 0"
  by (cases v) (simp add: zero_Matrix3x3_def zero_Vector3_def)

lemma cross_zero_left [simp]: "cross 0 v = 0"
  by (cases v) (simp add: zero_Vector3_def)

lemma mulMV_zero_right [simp]: "mulMV m 0 = 0"
  by (cases m) (simp add: zero_Vector3_def)

lemma times_Vector3_zero_right [simp]: "v * (0::Vector3) = 0"
  by (cases v) (simp add: zero_Vector3_def)

lemma component_zero [simp]: "component 0 k = 0"
  by (simp add: zero_Vector3_def)

lemma component_plus: "component (a + b) k = component a k + component b k"
  by (cases a; cases b) simp

lemma component_times: "component (a * b) k = component a k * component b k"
  by (cases a; cases b) simp

lemma component_scaleV: "component (scaleV c a) k = c * component a k"
  by (cases a) simp

text \<open>
  The matrix that \<open>getInverse\<close> returns for a matrix and its determinant is the inverse of
  the matrix, on both sides: the product with the transposed cofactor matrix is the
  determinant times the identity.
\<close>

lemma times_scaleM_right: "K * scaleM k C = scaleM k (K * C)"
  by (cases K; cases C) (simp add: algebra_simps)

lemma times_scaleM_left: "scaleM k C * K = scaleM k (C * K)"
  by (cases K; cases C) (simp add: algebra_simps)

lemma scaleM_scaleM: "scaleM a (scaleM b X) = scaleM (a * b) X"
  by (cases X) (simp add: algebra_simps)

lemma scaleM_one: "scaleM 1 X = X"
  by (cases X) simp

lemma getInverse_inverse:
  assumes "getInverse K (getDeterminant K) = Some M"
  shows "K * M = identity" and "M * K = identity"
proof -
  obtain a0 a1 a2 a3 a4 a5 a6 a7 a8 where K: "K = Matrix3x3 a0 a1 a2 a3 a4 a5 a6 a7 a8"
    by (cases K)
  define d where "d = getDeterminant K"
  define C where "C = Matrix3x3 (a4 * a8 - a7 * a5) (- (a1 * a8 - a7 * a2)) (a1 * a5 - a2 * a4)
                   (- (a3 * a8 - a6 * a5)) (a0 * a8 - a6 * a2) (- (a0 * a5 - a3 * a2))
                   (a3 * a7 - a6 * a4) (- (a0 * a7 - a6 * a1)) (a0 * a4 - a1 * a3)"
  from assms have d: "d \<noteq> 0" and M: "M = scaleM (1 / d) C"
    by (auto simp: K d_def C_def split: if_splits)
  have right: "K * C = scaleM d identity"
    by (simp add: K C_def d_def identity_def algebra_simps)
  have left: "C * K = scaleM d identity"
    by (simp add: K C_def d_def identity_def algebra_simps)
  show "K * M = identity"
    using d by (simp add: M times_scaleM_right right scaleM_scaleM scaleM_one)
  show "M * K = identity"
    using d by (simp add: M times_scaleM_left left scaleM_scaleM scaleM_one)
qed

lemma zero_not_inverse: "K * (0::Matrix3x3) \<noteq> identity"
  by (cases K) (simp add: zero_Matrix3x3_def identity_def)





lemma lengthSquare_integrate:
  "lengthSquare (q + scaleQ (Quaternion a b c 0 * q) (1 / 2)) =
     (1 + (a * a + b * b + c * c) / 4) * lengthSquare q"
  by (cases q) (simp add: algebra_simps)

lemma integrateOrientation_defined:
  assumes "lengthQ q = 1"
  shows "\<exists>q'. integrateOrientation q w = Some q'"
proof -
  obtain a b c where w: "w = Vector3 a b c" by (cases w)
  from assms have "lengthSquare q = 1"
    by (simp add: lengthQ_def)
  then have "lengthSquare (q + scaleQ (QuaternionWV 0 w * q) (1 / 2)) =
      1 + (a * a + b * b + c * c) / 4"
    by (simp add: w lengthSquare_integrate)
  moreover have "0 < 1 + (a * a + b * b + c * c) / 4"
    by (simp add: add_pos_nonneg)
  ultimately show ?thesis
    by (simp add: integrateOrientation_def normalizeQ_def lengthQ_def)
qed

section \<open>Properties of the loop over the joints\<close>

lemma forEachJoint_done: "n \<le> i \<Longrightarrow> forEachJoint body i n s = Some s"
  by (subst forEachJoint.simps) simp

lemma forEachJoint_step:
  "i < n \<Longrightarrow> forEachJoint body i n s =
     (case body i s of None \<Rightarrow> None | Some s' \<Rightarrow> forEachJoint body (Suc i) n s')"
  by (subst forEachJoint.simps) (simp split: option.split)

lemma forEachJoint_rows:
  assumes "forEachJoint body i n s = Some s'"
    and "i \<le> n"
    and "Q i s"
    and "\<And>j t t'. i \<le> j \<Longrightarrow> j < n \<Longrightarrow> Q j t \<Longrightarrow> body j t = Some t' \<Longrightarrow> Q (Suc j) t'"
  shows "Q n s'"
  using assms
proof (induction body i n s rule: forEachJoint.induct)
  case (1 body i n s)
  show ?case
  proof (cases "i < n")
    case True
    with "1.prems"(1) obtain t where t: "body i s = Some t"
      and rest: "forEachJoint body (i + 1) n t = Some s'"
      by (auto simp: forEachJoint_step split: option.splits)
    have "Q (Suc i) t"
      using "1.prems"(4) [of i s t] True "1.prems"(3) t by simp
    then show ?thesis
      using "1.IH" [OF True t rest] True "1.prems"(4) by simp
  next
    case False
    with "1.prems" show ?thesis
      by (simp add: forEachJoint_done)
  qed
qed

lemma forEachJoint_invariant:
  assumes "forEachJoint body i n s = Some s'"
    and "P s"
    and "\<And>j t t'. i \<le> j \<Longrightarrow> j < n \<Longrightarrow> P t \<Longrightarrow> body j t = Some t' \<Longrightarrow> P t'"
  shows "P s'"
proof (cases "i \<le> n")
  case True
  show ?thesis
    using forEachJoint_rows [where Q = "\<lambda>j. P", OF assms(1) True assms(2)] assms(3) by blast
next
  case False
  with assms(1,2) show ?thesis
    by (simp add: forEachJoint_done)
qed

lemma forEachJoint_split:
  assumes "forEachJoint body k n s = Some s'"
    and "k \<le> i" and "i < n"
  shows "\<exists>t t'. forEachJoint body k i s = Some t \<and> body i t = Some t' \<and>
           forEachJoint body (Suc i) n t' = Some s'"
  using assms
proof (induction body k n s rule: forEachJoint.induct)
  case (1 body k n s)
  from "1.prems" have kn: "k < n" by simp
  with "1.prems"(1) obtain u where u: "body k s = Some u"
    and rest: "forEachJoint body (k + 1) n u = Some s'"
    by (auto simp: forEachJoint_step split: option.splits)
  show ?case
  proof (cases "k = i")
    case True
    have "forEachJoint body k i s = Some s"
      using True by (simp add: forEachJoint_done)
    with u rest True show ?thesis by simp
  next
    case False
    with "1.prems" have "k + 1 \<le> i" by simp
    from "1.IH" [OF kn u rest this "1.prems"(3)]
    obtain t t' where t: "forEachJoint body (k + 1) i u = Some t"
      and t': "body i t = Some t'" "forEachJoint body (Suc i) n t' = Some s'" by blast
    have "forEachJoint body k i s = Some t"
      using False "1.prems"(2) u t by (simp add: forEachJoint_step)
    with t' show ?thesis by blast
  qed
qed

lemma forEachJoint_fixpoint:
  assumes "\<And>i. k \<le> i \<Longrightarrow> i < n \<Longrightarrow> body i s = Some s"
  shows "forEachJoint body k n s = Some s"
  using assms
proof (induction body k n s rule: forEachJoint.induct)
  case (1 body k n s)
  show ?case
  proof (cases "k < n")
    case True
    then have "body k s = Some s"
      using "1.prems" by simp
    moreover have "forEachJoint body (k + 1) n s = Some s"
      using "1.IH" [OF True \<open>body k s = Some s\<close>] "1.prems" by simp
    ultimately show ?thesis
      using True by (simp add: forEachJoint_step)
  next
    case False
    then show ?thesis by (simp add: forEachJoint_done)
  qed
qed

lemma iterations_invariant:
  assumes "iterations M pass s = Some s'"
    and "P s"
    and "\<And>t t'. P t \<Longrightarrow> pass t = Some t' \<Longrightarrow> P t'"
  shows "P s'"
  using assms
  by (induction M arbitrary: s) (auto split: option.splits)

section \<open>Evaluation on the example systems\<close>

lemma exampleSystem_fields:
  "mRigidBodyComponents exampleSystem = exampleBodies"
  "mTransformComponents exampleSystem = exampleTransforms"
  "mJointComponents exampleSystem = exampleJoints"
  "mBallAndSocketJointComponents exampleSystem = exampleBallAndSocketJoints"
  "mTimeStep exampleSystem = 1 / 60"
  "mIsWarmStartingActive exampleSystem = True"
  by (simp_all add: exampleSystem_def)

lemmas example_defs = exampleSystem_fields exampleBodies_def exampleTransforms_def exampleJoints_def
  exampleBallAndSocketJoints_def

lemmas examples = example_defs exampleInitialized_def exampleLocked_def examplePerturbed_def
  exampleSingular_def

lemmas solver_defs = forEachJoint_step forEachJoint_done getNbEnabledComponents_def jointRows_def
  getIsEntityDisabled_def getEntityIndex_def getTransform_def setJointGeometry_def
  setInverseMassMatrix_def setBiasVector_def resetImpulse_def massMatrixK_def mulQV_def
  identity_def zero_Vector3_def zero_Matrix3x3_def BETA_def Let_def

lemmas eval_defs = solver_defs examples

lemmas eval_congs = Option.bind_option_cong_code let_weak_cong prod.case_cong_weak

lemmas position_defs = solvePositionConstraint_def solvePositionConstraintJoint_def
  applyPseudoImpulse_def integrateOrientation_def normalizeQ_def lengthQ_def
  computeWorldInertiaTensorInverse_def

lemma example_rows:
  "jointRows exampleSystem 0 = Some (0, 0, 1)"
  "jointRows exampleInitialized 0 = Some (0, 0, 1)"
  "jointRows exampleLocked 0 = Some (0, 0, 1)"
  "jointRows examplePerturbed 0 = Some (0, 0, 1)"
  "jointRows exampleSingular 0 = Some (0, 0, 1)"
  by (simp_all add: eval_defs cong: eval_congs)

lemma example_init:
  "\<exists>s'. initBeforeSolve (1 / 1000000) exampleSystem = Some s' \<and>
     mRigidBodyComponents s' = exampleBodies \<and>
     mR1World (mBallAndSocketJointComponents s') 0 = Vector3 0 0 0 \<and>
     mR2World (mBallAndSocketJointComponents s') 0 = Vector3 0 1 0 \<and>
     mI1 (mBallAndSocketJointComponents s') 0 = identity \<and>
     mI2 (mBallAndSocketJointComponents s') 0 = identity \<and>
     mInverseMassMatrix (mBallAndSocketJointComponents s') 0 =
       Matrix3x3 (2 / 5) 0 0 0 (2 / 3) 0 0 0 (2 / 5)"
  by (simp add: initBeforeSolve_def initBeforeSolveJoint_def eval_defs cong: eval_congs)


lemma example_velocity_pass:
  "solveVelocityConstraint exampleSystem \<noteq> None"
  "solveVelocityConstraint exampleLocked \<noteq> None"
  by (simp_all add: solveVelocityConstraint_def solveVelocityConstraintJoint_def eval_defs
      cong: eval_congs)

lemma example_position_pass:
  "\<exists>s'. iterations 1 (solvePositionConstraint (1 / 1000000)) examplePerturbed = Some s' \<and>
     mConstrainedPositions (mRigidBodyComponents s') 0 = Vector3 (1 / 5) 0 0 \<and>
     mConstrainedPositions (mRigidBodyComponents s') 1 = Vector3 (3 / 5) (- 1) 0"
  by (simp add: position_defs eval_defs cong: eval_congs)

section \<open>Properties of the rows\<close>

lemma getEntityIndex_cong:
  "mNbComponents c = mNbComponents d \<Longrightarrow>
   mMapEntityToComponentIndex c = mMapEntityToComponentIndex d \<Longrightarrow>
   getEntityIndex c = getEntityIndex d"
  by (simp add: getEntityIndex_def fun_eq_iff split: option.split)

lemma jointRows_cong:
  assumes "mJointEntities (mBallAndSocketJointComponents s) = mJointEntities (mBallAndSocketJointComponents t)"
    and "mJointComponents s = mJointComponents t"
    and "mNbComponents (mRigidBodyComponents s) = mNbComponents (mRigidBodyComponents t)"
    and "mMapEntityToComponentIndex (mRigidBodyComponents s) =
         mMapEntityToComponentIndex (mRigidBodyComponents t)"
  shows "jointRows s = jointRows t"
  using assms getEntityIndex_cong [of "mRigidBodyComponents s" "mRigidBodyComponents t"]
  by (simp add: jointRows_def fun_eq_iff)


subsection \<open>The applied impulse\<close>

lemma applyImpulse_zero [simp]: "applyImpulse rb c1 c2 r1 r2 i1 i2 0 = rb"
  by (simp add: applyImpulse_def)

lemma applyImpulse_closed:
  "applyImpulse rb c1 c2 r1 r2 i1 i2 p =
     rb\<lparr>mConstrainedLinearVelocities := (\<lambda>c. mConstrainedLinearVelocities rb c +
          (if c = c1 then scaleV (mInverseMasses rb c1) (mLinearLockAxisFactors rb c1) * (- p) else 0) +
          (if c = c2 then scaleV (mInverseMasses rb c2) (mLinearLockAxisFactors rb c2) * p else 0)),
        mConstrainedAngularVelocities := (\<lambda>c. mConstrainedAngularVelocities rb c +
          (if c = c1 then mAngularLockAxisFactors rb c1 * mulMV i1 (cross p r1) else 0) +
          (if c = c2 then mAngularLockAxisFactors rb c2 * mulMV i2 (- cross p r2) else 0))\<rparr>"
proof -
  have lin: "(mConstrainedLinearVelocities rb)
      (c1 := mConstrainedLinearVelocities rb c1 + a,
       c2 := ((mConstrainedLinearVelocities rb)(c1 := mConstrainedLinearVelocities rb c1 + a)) c2 + b) =
     (\<lambda>c. mConstrainedLinearVelocities rb c + (if c = c1 then a else 0) + (if c = c2 then b else 0))"
    for a b
    by (auto simp: fun_eq_iff)
  have ang: "(mConstrainedAngularVelocities rb)
      (c1 := mConstrainedAngularVelocities rb c1 + a,
       c2 := ((mConstrainedAngularVelocities rb)(c1 := mConstrainedAngularVelocities rb c1 + a)) c2 + b) =
     (\<lambda>c. mConstrainedAngularVelocities rb c + (if c = c1 then a else 0) + (if c = c2 then b else 0))"
    for a b
    by (auto simp: fun_eq_iff)
  show ?thesis
    unfolding applyImpulse_def Let_def
    by (simp add: lin ang del: fun_upd_apply)
qed

lemma applyImpulse_fields [simp]:
  "mBodyTypes (applyImpulse rb c1 c2 r1 r2 i1 i2 p) = mBodyTypes rb"
  "mInverseMasses (applyImpulse rb c1 c2 r1 r2 i1 i2 p) = mInverseMasses rb"
  "mLinearLockAxisFactors (applyImpulse rb c1 c2 r1 r2 i1 i2 p) = mLinearLockAxisFactors rb"
  "mAngularLockAxisFactors (applyImpulse rb c1 c2 r1 r2 i1 i2 p) = mAngularLockAxisFactors rb"
  "mNbComponents (applyImpulse rb c1 c2 r1 r2 i1 i2 p) = mNbComponents rb"
  "mMapEntityToComponentIndex (applyImpulse rb c1 c2 r1 r2 i1 i2 p) = mMapEntityToComponentIndex rb"
  by (simp_all add: applyImpulse_closed)

lemma applyImpulse_locked:
  "component (mLinearLockAxisFactors rb c) k = 0 \<Longrightarrow>
     component (mConstrainedLinearVelocities (applyImpulse rb c1 c2 r1 r2 i1 i2 p) c) k =
     component (mConstrainedLinearVelocities rb c) k"
  "component (mAngularLockAxisFactors rb c) k = 0 \<Longrightarrow>
     component (mConstrainedAngularVelocities (applyImpulse rb c1 c2 r1 r2 i1 i2 p) c) k =
     component (mConstrainedAngularVelocities rb c) k"
  by (auto simp: applyImpulse_closed component_plus component_times component_scaleV)

lemma warmstartJoint_Some:
  assumes "warmstartJoint i s = Some s'"
  obtains jointIndex c1 c2 where "jointRows s i = Some (jointIndex, c1, c2)"
    and "s' = s\<lparr>mRigidBodyComponents := applyImpulse (mRigidBodyComponents s) c1 c2
           (mR1World (mBallAndSocketJointComponents s) i) (mR2World (mBallAndSocketJointComponents s) i)
           (mI1 (mBallAndSocketJointComponents s) i) (mI2 (mBallAndSocketJointComponents s) i)
           (mImpulse (mBallAndSocketJointComponents s) i)\<rparr>"
  using assms
  by (auto simp: warmstartJoint_def Option.bind_eq_Some_conv Let_def)

lemma solveVelocityConstraintJoint_Some:
  assumes "solveVelocityConstraintJoint i s = Some s'"
  obtains jointIndex c1 c2 where "jointRows s i = Some (jointIndex, c1, c2)"
    and "s' = s\<lparr>mRigidBodyComponents := applyImpulse (mRigidBodyComponents s) c1 c2
           (mR1World (mBallAndSocketJointComponents s) i) (mR2World (mBallAndSocketJointComponents s) i)
           (mI1 (mBallAndSocketJointComponents s) i) (mI2 (mBallAndSocketJointComponents s) i)
           (deltaLambda_of s i c1 c2),
         mBallAndSocketJointComponents := (mBallAndSocketJointComponents s)
           \<lparr>mImpulse := (mImpulse (mBallAndSocketJointComponents s))
              (i := mImpulse (mBallAndSocketJointComponents s) i + deltaLambda_of s i c1 c2)\<rparr>\<rparr>"
  using assms
  by (auto simp: solveVelocityConstraintJoint_def Option.bind_eq_Some_conv Let_def)



lemma velocity_row_locked:
  assumes "warmstartJoint i t = Some t' \<or> solveVelocityConstraintJoint i t = Some t'"
  shows "mLinearLockAxisFactors (mRigidBodyComponents t') = mLinearLockAxisFactors (mRigidBodyComponents t) \<and>
         mAngularLockAxisFactors (mRigidBodyComponents t') = mAngularLockAxisFactors (mRigidBodyComponents t) \<and>
         (component (mLinearLockAxisFactors (mRigidBodyComponents t) c) k = 0 \<longrightarrow>
            component (mConstrainedLinearVelocities (mRigidBodyComponents t') c) k =
            component (mConstrainedLinearVelocities (mRigidBodyComponents t) c) k) \<and>
         (component (mAngularLockAxisFactors (mRigidBodyComponents t) c) k = 0 \<longrightarrow>
            component (mConstrainedAngularVelocities (mRigidBodyComponents t') c) k =
            component (mConstrainedAngularVelocities (mRigidBodyComponents t) c) k)"
  using assms
  by (auto elim!: warmstartJoint_Some solveVelocityConstraintJoint_Some simp: applyImpulse_locked)


subsection \<open>The position update\<close>

lemma applyPseudoImpulse_Some:
  assumes "applyPseudoImpulse rb c1 c2 r1 r2 i1 i2 lam = Some rb'"
  obtains w1 w2 q1 q2 where
    "rb' = rb\<lparr>mConstrainedPositions := (\<lambda>c. mConstrainedPositions rb c +
              (if c = c1 then scaleV (mInverseMasses rb c1) (mLinearLockAxisFactors rb c1) * (- lam) else 0) +
              (if c = c2 then scaleV (mInverseMasses rb c2) (mLinearLockAxisFactors rb c2) * lam else 0)),
           mConstrainedOrientations := (mConstrainedOrientations rb)(c1 := q1, c2 := q2)\<rparr>"
    "integrateOrientation (mConstrainedOrientations rb c1) w1 = Some q1"
    "integrateOrientation (((mConstrainedOrientations rb)(c1 := q1)) c2) w2 = Some q2"
proof -
  have pos: "(mConstrainedPositions rb)
      (c1 := mConstrainedPositions rb c1 + a,
       c2 := ((mConstrainedPositions rb)(c1 := mConstrainedPositions rb c1 + a)) c2 + b) =
     (\<lambda>c. mConstrainedPositions rb c + (if c = c1 then a else 0) + (if c = c2 then b else 0))"
    for a b
    by (auto simp: fun_eq_iff)
  show thesis
    using assms that
    unfolding applyPseudoImpulse_def
    by (simp add: Let_def Option.bind_eq_Some_conv pos del: fun_upd_apply) blast
qed

lemma applyPseudoImpulse_frame:
  assumes "applyPseudoImpulse rb c1 c2 r1 r2 i1 i2 lam = Some rb'"
  shows "mConstrainedLinearVelocities rb' = mConstrainedLinearVelocities rb"
    and "mConstrainedAngularVelocities rb' = mConstrainedAngularVelocities rb"
    and "mLinearLockAxisFactors rb' = mLinearLockAxisFactors rb"
    and "mAngularLockAxisFactors rb' = mAngularLockAxisFactors rb"
    and "component (mLinearLockAxisFactors rb c) k = 0 \<Longrightarrow>
           component (mConstrainedPositions rb' c) k = component (mConstrainedPositions rb c) k"
  using assms
  by (auto elim!: applyPseudoImpulse_Some simp: component_plus component_times component_scaleV)


lemma solvePositionConstraintJoint_Some:
  assumes step: "solvePositionConstraintJoint eps i s = Some s'"
  obtains (skip) "s' = s"
  | (singular) bs' where "s' = s\<lparr>mBallAndSocketJointComponents := bs'\<rparr>"
  | (update) c1 c2 r1 r2 i1 i2 lam rb' bs' where
      "applyPseudoImpulse (mRigidBodyComponents s) c1 c2 r1 r2 i1 i2 lam = Some rb'"
      "s' = s\<lparr>mRigidBodyComponents := rb', mBallAndSocketJointComponents := bs'\<rparr>"
  using assms
  unfolding solvePositionConstraintJoint_def
  by (simp add: Let_def Option.bind_eq_Some_conv split: if_splits) blast+

lemma position_row_frame:
  assumes "solvePositionConstraintJoint eps i t = Some t'"
  shows "mConstrainedLinearVelocities (mRigidBodyComponents t') =
           mConstrainedLinearVelocities (mRigidBodyComponents t)"
    and "mConstrainedAngularVelocities (mRigidBodyComponents t') =
           mConstrainedAngularVelocities (mRigidBodyComponents t)"
    and "mLinearLockAxisFactors (mRigidBodyComponents t') = mLinearLockAxisFactors (mRigidBodyComponents t)"
    and "mAngularLockAxisFactors (mRigidBodyComponents t') = mAngularLockAxisFactors (mRigidBodyComponents t)"
    and "component (mLinearLockAxisFactors (mRigidBodyComponents t) c) k = 0 \<Longrightarrow>
           component (mConstrainedPositions (mRigidBodyComponents t') c) k =
           component (mConstrainedPositions (mRigidBodyComponents t) c) k"
  using assms
  by (auto elim!: solvePositionConstraintJoint_Some simp: applyPseudoImpulse_frame)


subsection \<open>The pre-solver\<close>

lemma resetImpulse_closed:
  "resetImpulse bs i warm =
     bs\<lparr>mImpulse := (mImpulse bs)(i := if warm then mImpulse bs i else 0)\<rparr>"
  by (simp add: resetImpulse_def)

lemma setBiasVector_closed:
  "setBiasVector bs i technique bf x1 x2 r1 r2 =
     bs\<lparr>mBiasVector := (mBiasVector bs)
          (i := if technique = BAUMGARTE_JOINTS then scaleV bf (x2 + r2 - x1 - r1) else 0)\<rparr>"
  by (simp add: setBiasVector_def Let_def)

lemma inverseMassMatrix_closed:
  "(if c then setInverseMassMatrix (setJointGeometry bs i i1 i2 r1 r2) i K d t1 t2
    else Some (setJointGeometry bs i i1 i2 r1 r2)) =
   map_option
     (\<lambda>inverse. bs\<lparr>mR1World := (mR1World bs)(i := r1), mR2World := (mR2World bs)(i := r2),
                mI1 := (mI1 bs)(i := i1), mI2 := (mI2 bs)(i := i2),
                mInverseMassMatrix := (mInverseMassMatrix bs)(i := inverse)\<rparr>)
     (if c \<and> (t1 = DYNAMIC \<or> t2 = DYNAMIC) then getInverse K d else Some 0)"
  by (cases "getInverse K d")
    (simp_all add: setInverseMassMatrix_def setJointGeometry_def Let_def)

lemma if_None_eq_Some: "((if c then None else x) = Some y) = (\<not> c \<and> x = Some y)"
  by simp

lemma initBeforeSolveJoint_SomeE:
  assumes "initBeforeSolveJoint eps bf i s = Some s'"
  obtains jointIndex c1 c2 transform1 transform2 bs1 where
    "jointRows s i = Some (jointIndex, c1, c2)"
    "getIsEntityDisabled (mRigidBodyComponents s) (mBody1Entities (mJointComponents s) jointIndex) = Some False"
    "getIsEntityDisabled (mRigidBodyComponents s) (mBody2Entities (mJointComponents s) jointIndex) = Some False"
    "getTransform (mTransformComponents s) (mBody1Entities (mJointComponents s) jointIndex) = Some transform1"
    "getTransform (mTransformComponents s) (mBody2Entities (mJointComponents s) jointIndex) = Some transform2"
    "(if eps < \<bar>getDeterminant (massMatrixK
              (mInverseMasses (mRigidBodyComponents s) c1 + mInverseMasses (mRigidBodyComponents s) c2)
              (mulQV (mOrientation transform1) (mLocalAnchorPointBody1 (mBallAndSocketJointComponents s) i))
              (mulQV (mOrientation transform2) (mLocalAnchorPointBody2 (mBallAndSocketJointComponents s) i))
              (mInverseInertiaTensorsWorld (mRigidBodyComponents s) c1)
              (mInverseInertiaTensorsWorld (mRigidBodyComponents s) c2))\<bar>
      then setInverseMassMatrix
        (setJointGeometry (mBallAndSocketJointComponents s) i
          (mInverseInertiaTensorsWorld (mRigidBodyComponents s) c1)
          (mInverseInertiaTensorsWorld (mRigidBodyComponents s) c2)
          (mulQV (mOrientation transform1) (mLocalAnchorPointBody1 (mBallAndSocketJointComponents s) i))
          (mulQV (mOrientation transform2) (mLocalAnchorPointBody2 (mBallAndSocketJointComponents s) i)))
        i (massMatrixK
              (mInverseMasses (mRigidBodyComponents s) c1 + mInverseMasses (mRigidBodyComponents s) c2)
              (mulQV (mOrientation transform1) (mLocalAnchorPointBody1 (mBallAndSocketJointComponents s) i))
              (mulQV (mOrientation transform2) (mLocalAnchorPointBody2 (mBallAndSocketJointComponents s) i))
              (mInverseInertiaTensorsWorld (mRigidBodyComponents s) c1)
              (mInverseInertiaTensorsWorld (mRigidBodyComponents s) c2))
        (getDeterminant (massMatrixK
              (mInverseMasses (mRigidBodyComponents s) c1 + mInverseMasses (mRigidBodyComponents s) c2)
              (mulQV (mOrientation transform1) (mLocalAnchorPointBody1 (mBallAndSocketJointComponents s) i))
              (mulQV (mOrientation transform2) (mLocalAnchorPointBody2 (mBallAndSocketJointComponents s) i))
              (mInverseInertiaTensorsWorld (mRigidBodyComponents s) c1)
              (mInverseInertiaTensorsWorld (mRigidBodyComponents s) c2)))
        (mBodyTypes (mRigidBodyComponents s) c1) (mBodyTypes (mRigidBodyComponents s) c2)
      else Some (setJointGeometry (mBallAndSocketJointComponents s) i
          (mInverseInertiaTensorsWorld (mRigidBodyComponents s) c1)
          (mInverseInertiaTensorsWorld (mRigidBodyComponents s) c2)
          (mulQV (mOrientation transform1) (mLocalAnchorPointBody1 (mBallAndSocketJointComponents s) i))
          (mulQV (mOrientation transform2) (mLocalAnchorPointBody2 (mBallAndSocketJointComponents s) i)))) =
     Some bs1"
    "s' = s\<lparr>mBallAndSocketJointComponents :=
        resetImpulse (setBiasVector bs1 i (mPositionCorrectionTechniques (mJointComponents s) jointIndex)
          bf (mCentersOfMassWorld (mRigidBodyComponents s) c1) (mCentersOfMassWorld (mRigidBodyComponents s) c2)
          (mulQV (mOrientation transform1) (mLocalAnchorPointBody1 (mBallAndSocketJointComponents s) i))
          (mulQV (mOrientation transform2) (mLocalAnchorPointBody2 (mBallAndSocketJointComponents s) i)))
        i (mIsWarmStartingActive s)\<rparr>"
  using assms unfolding initBeforeSolveJoint_def
  apply (simp add: Option.bind_eq_Some_conv Let_def if_None_eq_Some)
  apply (elim exE conjE)
  apply (rule that)
        apply assumption
       apply simp
      apply simp
     apply assumption
    apply assumption
   apply assumption
  apply (rule sym, assumption)
  done

lemma sameInputs_refl [simp]: "sameInputs s s"
  by (simp add: sameInputs_def)

lemma sameInputs_trans: "sameInputs s t \<Longrightarrow> sameInputs t u \<Longrightarrow> sameInputs s u"
  by (simp add: sameInputs_def)

lemma sameInputs_jointRows: "sameInputs s t \<Longrightarrow> jointRows t = jointRows s"
  by (rule jointRows_cong) (simp_all add: sameInputs_def)

lemma init_row_frame:
  assumes "initBeforeSolveJoint eps bf i s = Some s'"
  shows "sameInputs s s'"
    and "k \<noteq> i \<Longrightarrow> jointRow (mBallAndSocketJointComponents s') k =
           jointRow (mBallAndSocketJointComponents s) k"
    and "mIsWarmStartingActive s \<Longrightarrow> mImpulse (mBallAndSocketJointComponents s') =
           mImpulse (mBallAndSocketJointComponents s)"
    and "\<not> mIsWarmStartingActive s \<Longrightarrow> mImpulse (mBallAndSocketJointComponents s') i = 0"
  using assms
  by (auto elim!: initBeforeSolveJoint_SomeE
      simp: inverseMassMatrix_closed sameInputs_def jointRow_def resetImpulse_closed
        setBiasVector_closed)

lemma init_row_inverse:
  assumes "initBeforeSolveJoint eps bf i s = Some s'"
    and "jointRows s i = Some (jointIndex, c1, c2)"
  shows "(let rb = mRigidBodyComponents s;
              bs' = mBallAndSocketJointComponents s';
              K = massMatrixK (mInverseMasses rb c1 + mInverseMasses rb c2)
                    (mR1World bs' i) (mR2World bs' i) (mI1 bs' i) (mI2 bs' i)
          in if eps < \<bar>getDeterminant K\<bar> \<and> (mBodyTypes rb c1 = DYNAMIC \<or> mBodyTypes rb c2 = DYNAMIC)
             then getInverse K (getDeterminant K) else Some 0) =
         Some (mInverseMassMatrix (mBallAndSocketJointComponents s') i)"
  using assms
  by (auto elim!: initBeforeSolveJoint_SomeE
      simp: inverseMassMatrix_closed resetImpulse_closed setBiasVector_closed Let_def
      split: if_splits)

lemma init_row_absorb:
  assumes row: "initBeforeSolveJoint eps bf i s = Some s'"
    and inputs: "sameInputs s t"
    and rowEq: "jointRow (mBallAndSocketJointComponents t) i =
                jointRow (mBallAndSocketJointComponents s') i"
  shows "initBeforeSolveJoint eps bf i t = Some t"
  using row
proof (rule initBeforeSolveJoint_SomeE)
  fix jointIndex c1 c2 :: nat and transform1 transform2 :: Transform
    and bs1 :: BallAndSocketJointComponents
  let ?rb = "mRigidBodyComponents s"
  let ?bs = "mBallAndSocketJointComponents s"
  let ?r1 = "mulQV (mOrientation transform1) (mLocalAnchorPointBody1 ?bs i)"
  let ?r2 = "mulQV (mOrientation transform2) (mLocalAnchorPointBody2 ?bs i)"
  let ?K = "massMatrixK (mInverseMasses ?rb c1 + mInverseMasses ?rb c2) ?r1 ?r2
              (mInverseInertiaTensorsWorld ?rb c1) (mInverseInertiaTensorsWorld ?rb c2)"
  assume rows: "jointRows s i = Some (jointIndex, c1, c2)"
    and d1: "getIsEntityDisabled ?rb (mBody1Entities (mJointComponents s) jointIndex) = Some False"
    and d2: "getIsEntityDisabled ?rb (mBody2Entities (mJointComponents s) jointIndex) = Some False"
    and t1: "getTransform (mTransformComponents s) (mBody1Entities (mJointComponents s) jointIndex) = Some transform1"
    and t2: "getTransform (mTransformComponents s) (mBody2Entities (mJointComponents s) jointIndex) = Some transform2"
    and bs1: "(if eps < \<bar>getDeterminant ?K\<bar>
      then setInverseMassMatrix
        (setJointGeometry ?bs i (mInverseInertiaTensorsWorld ?rb c1) (mInverseInertiaTensorsWorld ?rb c2) ?r1 ?r2)
        i ?K (getDeterminant ?K) (mBodyTypes ?rb c1) (mBodyTypes ?rb c2)
      else Some (setJointGeometry ?bs i (mInverseInertiaTensorsWorld ?rb c1)
          (mInverseInertiaTensorsWorld ?rb c2) ?r1 ?r2)) = Some bs1"
    and s': "s' = s\<lparr>mBallAndSocketJointComponents :=
        resetImpulse (setBiasVector bs1 i (mPositionCorrectionTechniques (mJointComponents s) jointIndex)
          bf (mCentersOfMassWorld ?rb c1) (mCentersOfMassWorld ?rb c2) ?r1 ?r2)
        i (mIsWarmStartingActive s)\<rparr>"
  from bs1 obtain inverse where
    inv: "(if eps < \<bar>getDeterminant ?K\<bar> \<and> (mBodyTypes ?rb c1 = DYNAMIC \<or> mBodyTypes ?rb c2 = DYNAMIC)
           then getInverse ?K (getDeterminant ?K) else Some 0) = Some inverse"
    and bs1': "bs1 = ?bs\<lparr>mR1World := (mR1World ?bs)(i := ?r1), mR2World := (mR2World ?bs)(i := ?r2),
                mI1 := (mI1 ?bs)(i := mInverseInertiaTensorsWorld ?rb c1),
                mI2 := (mI2 ?bs)(i := mInverseInertiaTensorsWorld ?rb c2),
                mInverseMassMatrix := (mInverseMassMatrix ?bs)(i := inverse)\<rparr>"
    unfolding inverseMassMatrix_closed by auto
  from inputs have t_inputs:
    "mRigidBodyComponents t = ?rb" "mTransformComponents t = mTransformComponents s"
    "mJointComponents t = mJointComponents s" "mIsWarmStartingActive t = mIsWarmStartingActive s"
    "mLocalAnchorPointBody1 (mBallAndSocketJointComponents t) = mLocalAnchorPointBody1 ?bs"
    "mLocalAnchorPointBody2 (mBallAndSocketJointComponents t) = mLocalAnchorPointBody2 ?bs"
    by (simp_all add: sameInputs_def)
  from rows inputs have rows_t: "jointRows t i = Some (jointIndex, c1, c2)"
    by (simp add: sameInputs_jointRows)
  from rowEq have row_t:
    "mR1World (mBallAndSocketJointComponents t) i = ?r1"
    "mR2World (mBallAndSocketJointComponents t) i = ?r2"
    "mI1 (mBallAndSocketJointComponents t) i = mInverseInertiaTensorsWorld ?rb c1"
    "mI2 (mBallAndSocketJointComponents t) i = mInverseInertiaTensorsWorld ?rb c2"
    "mInverseMassMatrix (mBallAndSocketJointComponents t) i = inverse"
    "mBiasVector (mBallAndSocketJointComponents t) i =
       (if mPositionCorrectionTechniques (mJointComponents s) jointIndex = BAUMGARTE_JOINTS
        then scaleV bf (mCentersOfMassWorld ?rb c2 + ?r2 - mCentersOfMassWorld ?rb c1 - ?r1) else 0)"
    "mImpulse (mBallAndSocketJointComponents t) i =
       (if mIsWarmStartingActive s then mImpulse ?bs i else 0)"
    by (simp_all add: jointRow_def s' bs1' resetImpulse_closed setBiasVector_closed)
  let ?bt = "mBallAndSocketJointComponents t"
  have upd:
    "(mR1World ?bt)(i := ?r1) = mR1World ?bt"
    "(mR2World ?bt)(i := ?r2) = mR2World ?bt"
    "(mI1 ?bt)(i := mInverseInertiaTensorsWorld ?rb c1) = mI1 ?bt"
    "(mI2 ?bt)(i := mInverseInertiaTensorsWorld ?rb c2) = mI2 ?bt"
    "(mInverseMassMatrix ?bt)(i := inverse) = mInverseMassMatrix ?bt"
    "(mBiasVector ?bt)(i := if mPositionCorrectionTechniques (mJointComponents s) jointIndex = BAUMGARTE_JOINTS
        then scaleV bf (mCentersOfMassWorld ?rb c2 + ?r2 - mCentersOfMassWorld ?rb c1 - ?r1) else 0) =
     mBiasVector ?bt"
    "\<not> mIsWarmStartingActive s \<Longrightarrow> (mImpulse ?bt)(i := 0) = mImpulse ?bt"
    using row_t by (simp_all add: fun_upd_idem)
  show ?thesis
    unfolding initBeforeSolveJoint_def
    by (simp add: rows_t t_inputs d1 d2 t1 t2 Let_def inverseMassMatrix_closed inv
        resetImpulse_closed setBiasVector_closed upd)
qed

lemma init_pass_inputs:
  assumes "forEachJoint (initBeforeSolveJoint eps bf) k n s = Some s'"
  shows "sameInputs s s'"
proof (rule forEachJoint_invariant [where P = "sameInputs s", OF assms])
  show "sameInputs s s" by simp
next
  fix j t t'
  assume "sameInputs s t" and "initBeforeSolveJoint eps bf j t = Some t'"
  then show "sameInputs s t'"
    using init_row_frame(1) sameInputs_trans by blast
qed

lemma init_pass_row:
  assumes "forEachJoint (initBeforeSolveJoint eps bf) k n s = Some s'"
    and "i < k"
  shows "jointRow (mBallAndSocketJointComponents s') i = jointRow (mBallAndSocketJointComponents s) i"
proof (rule forEachJoint_invariant
    [where P = "\<lambda>t. jointRow (mBallAndSocketJointComponents t) i =
                     jointRow (mBallAndSocketJointComponents s) i", OF assms(1)])
  show "jointRow (mBallAndSocketJointComponents s) i = jointRow (mBallAndSocketJointComponents s) i"
    by simp
next
  fix j t t'
  assume "k \<le> j"
    and "jointRow (mBallAndSocketJointComponents t) i = jointRow (mBallAndSocketJointComponents s) i"
    and row: "initBeforeSolveJoint eps bf j t = Some t'"
  with assms(2) init_row_frame(2) [OF row, of i]
  show "jointRow (mBallAndSocketJointComponents t') i = jointRow (mBallAndSocketJointComponents s) i"
    by simp
qed

lemma init_pass_split:
  assumes pass: "forEachJoint (initBeforeSolveJoint eps bf) 0 n s = Some s'"
    and i: "i < n"
  obtains t t' where "sameInputs s t" "initBeforeSolveJoint eps bf i t = Some t'"
    "sameInputs t s'"
    "jointRow (mBallAndSocketJointComponents s') i = jointRow (mBallAndSocketJointComponents t') i"
proof -
  from forEachJoint_split [OF pass _ i]
  obtain t t' where before: "forEachJoint (initBeforeSolveJoint eps bf) 0 i s = Some t"
    and row: "initBeforeSolveJoint eps bf i t = Some t'"
    and after: "forEachJoint (initBeforeSolveJoint eps bf) (Suc i) n t' = Some s'"
    by auto
  have "sameInputs t t'"
    using row by (rule init_row_frame(1))
  moreover have "sameInputs t' s'"
    using after by (rule init_pass_inputs)
  ultimately have "sameInputs t s'"
    by (rule sameInputs_trans)
  moreover have "sameInputs s t"
    using before by (rule init_pass_inputs)
  moreover have "jointRow (mBallAndSocketJointComponents s') i =
      jointRow (mBallAndSocketJointComponents t') i"
    using after by (rule init_pass_row) simp
  ultimately show thesis
    using row that by blast
qed

section \<open>Properties of SolveBallAndSocketJointSystem\<close>

text \<open>
  C1: for every enabled ball-and-socket joint (a row \<open>i\<close> below the number of enabled
  components), \<open>initBeforeSolve\<close> resolves the rows of the joint and of its two bodies, and
  afterwards the joint's \<open>inverseMassMatrix\<close> \<open>M\<close> relates as follows to the effective-mass
  matrix \<open>K = diag(m1 + m2) + U1 * I1 * U1\<^sup>T + U2 * I2 * U2\<^sup>T\<close>, built from the inverse
  masses \<open>m1, m2\<close> of the bodies and the joint's fields \<open>r1World, r2World, I1, I2\<close>: when
  \<open>|det K| > MACHINE_EPSILON\<close> and one of the two bodies is DYNAMIC, \<open>M\<close> is the matrix
  that \<open>getInverse\<close> computes and it is the inverse of \<open>K\<close> on both sides; in every other
  case \<open>M\<close> is the zero matrix; so \<open>M\<close> is an inverse of \<open>K\<close> exactly in the first case.
\<close>

theorem initBeforeSolve_inverseMassMatrix:
  assumes init: "initBeforeSolve MACHINE_EPSILON s = Some s'"
    and enabled: "i < getNbEnabledComponents (mBallAndSocketJointComponents s)"
  shows "\<exists>jointIndex c1 c2. jointRows s i = Some (jointIndex, c1, c2) \<and>
     (let rb = mRigidBodyComponents s';
          bs = mBallAndSocketJointComponents s';
          inverseMassBodies = mInverseMasses rb c1 + mInverseMasses rb c2;
          U1 = computeSkewSymmetricMatrixForCrossProduct (mR1World bs i);
          U2 = computeSkewSymmetricMatrixForCrossProduct (mR2World bs i);
          K = Matrix3x3 inverseMassBodies 0 0 0 inverseMassBodies 0 0 0 inverseMassBodies +
              U1 * mI1 bs i * getTranspose U1 + U2 * mI2 bs i * getTranspose U2;
          invertible = (\<bar>getDeterminant K\<bar> > MACHINE_EPSILON \<and>
                        (mBodyTypes rb c1 = DYNAMIC \<or> mBodyTypes rb c2 = DYNAMIC));
          M = mInverseMassMatrix bs i
      in (invertible \<longrightarrow> getInverse K (getDeterminant K) = Some M \<and>
                         K * M = identity \<and> M * K = identity) \<and>
         (\<not> invertible \<longrightarrow> M = 0) \<and>
         (K * M = identity) = invertible)"
proof -
  let ?n = "getNbEnabledComponents (mBallAndSocketJointComponents s)"
  let ?bf = "BETA / mTimeStep s"
  from init have pass: "forEachJoint (initBeforeSolveJoint MACHINE_EPSILON ?bf) 0 ?n s = Some s'"
    by (simp add: initBeforeSolve_def Let_def split: if_splits)
  from pass enabled obtain t t' where st: "sameInputs s t"
    and row: "initBeforeSolveJoint MACHINE_EPSILON ?bf i t = Some t'"
    and ts': "sameInputs t s'"
    and same: "jointRow (mBallAndSocketJointComponents s') i =
               jointRow (mBallAndSocketJointComponents t') i"
    by (rule init_pass_split)
  from row obtain jointIndex c1 c2 where rows_t: "jointRows t i = Some (jointIndex, c1, c2)"
    by (auto elim!: initBeforeSolveJoint_SomeE)
  with st have rows: "jointRows s i = Some (jointIndex, c1, c2)"
    by (simp add: sameInputs_jointRows)
  let ?rb = "mRigidBodyComponents s'"
  let ?bs = "mBallAndSocketJointComponents s'"
  let ?K = "massMatrixK (mInverseMasses ?rb c1 + mInverseMasses ?rb c2)
              (mR1World ?bs i) (mR2World ?bs i) (mI1 ?bs i) (mI2 ?bs i)"
  let ?c = "MACHINE_EPSILON < \<bar>getDeterminant ?K\<bar> \<and>
            (mBodyTypes ?rb c1 = DYNAMIC \<or> mBodyTypes ?rb c2 = DYNAMIC)"
  let ?M = "mInverseMassMatrix ?bs i"
  from ts' have rb: "mRigidBodyComponents t = ?rb"
    by (simp add: sameInputs_def)
  from same have fields: "mR1World (mBallAndSocketJointComponents t') i = mR1World ?bs i"
    "mR2World (mBallAndSocketJointComponents t') i = mR2World ?bs i"
    "mI1 (mBallAndSocketJointComponents t') i = mI1 ?bs i"
    "mI2 (mBallAndSocketJointComponents t') i = mI2 ?bs i"
    "mInverseMassMatrix (mBallAndSocketJointComponents t') i = ?M"
    by (simp_all add: jointRow_def)
  from init_row_inverse [OF row rows_t]
  have choice: "(if ?c then getInverse ?K (getDeterminant ?K) else Some 0) = Some ?M"
    by (simp add: Let_def rb fields cong: if_cong)
  have inverse: "getInverse ?K (getDeterminant ?K) = Some ?M" if "?c"
    using choice that by simp
  have zero: "?M = 0" if "\<not> ?c"
    using choice that by simp
  have holds: "?K * ?M = identity" "?M * ?K = identity" if "?c"
    using inverse [OF that] by (rule getInverse_inverse)+
  have fails: "?K * ?M \<noteq> identity" if "\<not> ?c"
    using zero [OF that] zero_not_inverse [of ?K] by simp
  have "(?c \<longrightarrow> getInverse ?K (getDeterminant ?K) = Some ?M \<and> ?K * ?M = identity \<and>
           ?M * ?K = identity) \<and>
        (\<not> ?c \<longrightarrow> ?M = 0) \<and> (?K * ?M = identity) = ?c"
    using inverse zero holds fails by blast
  then show ?thesis
    using rows by (simp add: Let_def massMatrixK_def)
qed

text \<open>
  On the example, the effective-mass matrix is \<open>diag(5/2, 3/2, 5/2)\<close>, of determinant
  \<open>75/8\<close>, and the pre-solver stores its inverse \<open>diag(2/5, 2/3, 2/5)\<close>.
\<close>

theorem initBeforeSolve_inverseMassMatrix_witness:
  "\<exists>s'. initBeforeSolve (1 / 1000000) exampleSystem = Some s' \<and>
     (0::nat) < getNbEnabledComponents (mBallAndSocketJointComponents exampleSystem) \<and>
     jointRows exampleSystem 0 = Some (0, 0, 1) \<and>
     mInverseMassMatrix (mBallAndSocketJointComponents s') 0 =
       Matrix3x3 (2 / 5) 0 0 0 (2 / 3) 0 0 0 (2 / 5) \<and>
     getInverse (Matrix3x3 (5 / 2) 0 0 0 (3 / 2) 0 0 0 (5 / 2)) (75 / 8) =
       Some (mInverseMassMatrix (mBallAndSocketJointComponents s') 0) \<and>
     Matrix3x3 (5 / 2) 0 0 0 (3 / 2) 0 0 0 (5 / 2) *
       mInverseMassMatrix (mBallAndSocketJointComponents s') 0 = identity"
proof -
  from example_init obtain s' where init: "initBeforeSolve (1 / 1000000) exampleSystem = Some s'"
    and fields: "mRigidBodyComponents s' = exampleBodies"
      "mR1World (mBallAndSocketJointComponents s') 0 = Vector3 0 0 0"
      "mR2World (mBallAndSocketJointComponents s') 0 = Vector3 0 1 0"
      "mI1 (mBallAndSocketJointComponents s') 0 = identity"
      "mI2 (mBallAndSocketJointComponents s') 0 = identity"
      "mInverseMassMatrix (mBallAndSocketJointComponents s') 0 =
         Matrix3x3 (2 / 5) 0 0 0 (2 / 3) 0 0 0 (2 / 5)"
    by blast
  have enabled: "(0::nat) < getNbEnabledComponents (mBallAndSocketJointComponents exampleSystem)"
    by (simp add: eval_defs)
  from initBeforeSolve_inverseMassMatrix [OF init enabled]
  have "getInverse (Matrix3x3 (5 / 2) 0 0 0 (3 / 2) 0 0 0 (5 / 2)) (75 / 8) =
       Some (mInverseMassMatrix (mBallAndSocketJointComponents s') 0) \<and>
     Matrix3x3 (5 / 2) 0 0 0 (3 / 2) 0 0 0 (5 / 2) *
       mInverseMassMatrix (mBallAndSocketJointComponents s') 0 = identity"
    by (simp add: example_rows fields exampleBodies_def identity_def Let_def)
  with init enabled fields show ?thesis
    by (simp add: example_rows)
qed





text \<open>
  C4: for every body row \<open>c\<close> and every axis \<open>k\<close>, if the linear (the angular) lock-axis
  factor of the body is 0 on that axis, then \<open>warmstart\<close>, \<open>solveVelocityConstraint\<close> and
  \<open>solvePositionConstraint\<close> leave the component \<open>k\<close> of the constrained linear (angular)
  velocity of the body as it was; and the pseudo-velocity of \<open>solvePositionConstraint\<close>
  leaves the component \<open>k\<close> of the constrained position of a body as it was when the linear
  factor is 0 there.
\<close>

theorem locked_axes_never_modified:
  assumes "warmstart s = Some s' \<or> solveVelocityConstraint s = Some s' \<or>
           solvePositionConstraint MACHINE_EPSILON s = Some s'"
  shows "(component (mLinearLockAxisFactors (mRigidBodyComponents s) c) k = 0 \<longrightarrow>
            component (mConstrainedLinearVelocities (mRigidBodyComponents s') c) k =
            component (mConstrainedLinearVelocities (mRigidBodyComponents s) c) k) \<and>
         (component (mAngularLockAxisFactors (mRigidBodyComponents s) c) k = 0 \<longrightarrow>
            component (mConstrainedAngularVelocities (mRigidBodyComponents s') c) k =
            component (mConstrainedAngularVelocities (mRigidBodyComponents s) c) k) \<and>
         (solvePositionConstraint MACHINE_EPSILON s = Some s' \<longrightarrow>
          component (mLinearLockAxisFactors (mRigidBodyComponents s) c) k = 0 \<longrightarrow>
            component (mConstrainedPositions (mRigidBodyComponents s') c) k =
            component (mConstrainedPositions (mRigidBodyComponents s) c) k)"
proof -
  let ?lin = "\<lambda>t. mLinearLockAxisFactors (mRigidBodyComponents t)"
  let ?ang = "\<lambda>t. mAngularLockAxisFactors (mRigidBodyComponents t)"
  let ?P = "\<lambda>t. ?lin t = ?lin s \<and> ?ang t = ?ang s \<and>
      (component (?lin s c) k = 0 \<longrightarrow>
         component (mConstrainedLinearVelocities (mRigidBodyComponents t) c) k =
         component (mConstrainedLinearVelocities (mRigidBodyComponents s) c) k) \<and>
      (component (?ang s c) k = 0 \<longrightarrow>
         component (mConstrainedAngularVelocities (mRigidBodyComponents t) c) k =
         component (mConstrainedAngularVelocities (mRigidBodyComponents s) c) k)"
  let ?Q = "\<lambda>t. ?lin t = ?lin s \<and>
      (component (?lin s c) k = 0 \<longrightarrow>
         component (mConstrainedPositions (mRigidBodyComponents t) c) k =
         component (mConstrainedPositions (mRigidBodyComponents s) c) k)"
  have velocity: "?P s'" if "forEachJoint body 0 n s = Some s'"
    and "\<And>j t t'. body j t = Some t' \<Longrightarrow>
           warmstartJoint j t = Some t' \<or> solveVelocityConstraintJoint j t = Some t'"
    for body n
  proof (rule forEachJoint_invariant [where P = ?P, OF that(1)])
    show "?P s" by simp
  next
    fix j t t'
    assume P: "?P t" and row: "body j t = Some t'"
    from row have "warmstartJoint j t = Some t' \<or> solveVelocityConstraintJoint j t = Some t'"
      by (rule that(2))
    from velocity_row_locked [OF this, of c k] P show "?P t'"
      by simp
  qed
  have position: "?P s' \<and> ?Q s'" if "solvePositionConstraint MACHINE_EPSILON s = Some s'"
  proof (rule forEachJoint_invariant [where P = "\<lambda>t. ?P t \<and> ?Q t",
        OF that [unfolded solvePositionConstraint_def Let_def]])
    show "?P s \<and> ?Q s" by simp
  next
    fix j t t'
    assume PQ: "?P t \<and> ?Q t" and row: "solvePositionConstraintJoint MACHINE_EPSILON j t = Some t'"
    from position_row_frame(1-4) [OF row] position_row_frame(5) [OF row, of c k] PQ
    show "?P t' \<and> ?Q t'"
      by simp
  qed
  from assms consider (w) "warmstart s = Some s'" | (v) "solveVelocityConstraint s = Some s'"
    | (p) "solvePositionConstraint MACHINE_EPSILON s = Some s'" by blast
  then have "?P s'"
  proof cases
    case w
    then show ?thesis
      by (intro velocity [of warmstartJoint]) (simp_all add: warmstart_def Let_def)
  next
    case v
    then show ?thesis
      by (intro velocity [of solveVelocityConstraintJoint])
        (simp_all add: solveVelocityConstraint_def Let_def)
  next
    case p
    with position show ?thesis by blast
  qed
  with position show ?thesis by blast
qed

text \<open>
  With the linear y axis of body 2 locked, a velocity pass keeps the y component 2 of its
  linear velocity.
\<close>

theorem locked_axes_never_modified_witness:
  "\<exists>s'. solveVelocityConstraint exampleLocked = Some s' \<and>
     component (mLinearLockAxisFactors (mRigidBodyComponents exampleLocked) 1) 1 = 0 \<and>
     component (mConstrainedLinearVelocities (mRigidBodyComponents s') 1) 1 =
       component (mConstrainedLinearVelocities (mRigidBodyComponents exampleLocked) 1) 1 \<and>
     component (mConstrainedLinearVelocities (mRigidBodyComponents exampleLocked) 1) 1 = 2"
proof -
  from example_velocity_pass(2) obtain s' where
    pass: "solveVelocityConstraint exampleLocked = Some s'"
    by blast
  have locked: "component (mLinearLockAxisFactors (mRigidBodyComponents exampleLocked) 1) 1 = 0"
    and before: "component (mConstrainedLinearVelocities (mRigidBodyComponents exampleLocked) 1) 1 = 2"
    by (simp_all add: examples)
  from locked_axes_never_modified [of exampleLocked s' 0 1 1] pass locked before
  show ?thesis
    by simp
qed

text \<open>
  C5: \<open>solvePositionConstraint\<close> never modifies a constrained linear or angular velocity:
  after any number \<open>M\<close> of position-solver iterations both velocity columns are what they
  were before.
\<close>

theorem solvePositionConstraint_keeps_velocities:
  assumes "iterations M (solvePositionConstraint MACHINE_EPSILON) s = Some s'"
  shows "mConstrainedLinearVelocities (mRigidBodyComponents s') =
           mConstrainedLinearVelocities (mRigidBodyComponents s) \<and>
         mConstrainedAngularVelocities (mRigidBodyComponents s') =
           mConstrainedAngularVelocities (mRigidBodyComponents s)"
proof -
  let ?P = "\<lambda>t. mConstrainedLinearVelocities (mRigidBodyComponents t) =
                 mConstrainedLinearVelocities (mRigidBodyComponents s) \<and>
               mConstrainedAngularVelocities (mRigidBodyComponents t) =
                 mConstrainedAngularVelocities (mRigidBodyComponents s)"
  have pass: "?P t'" if "?P t" and "solvePositionConstraint MACHINE_EPSILON t = Some t'" for t t'
  proof (rule forEachJoint_invariant [where P = ?P,
        OF that(2) [unfolded solvePositionConstraint_def Let_def]])
    show "?P t" by (rule that(1))
  next
    fix j u u'
    assume P: "?P u" and row: "solvePositionConstraintJoint MACHINE_EPSILON j u = Some u'"
    from position_row_frame(1,2) [OF row] P show "?P u'"
      by simp
  qed
  show ?thesis
    by (rule iterations_invariant [where P = ?P, OF assms]) (simp, erule (1) pass)
qed

text \<open>
  One iteration on the perturbed example moves body 2 and keeps every velocity.
\<close>

theorem solvePositionConstraint_keeps_velocities_witness:
  "\<exists>s'. iterations 1 (solvePositionConstraint (1 / 1000000)) examplePerturbed = Some s' \<and>
     mConstrainedPositions (mRigidBodyComponents s') 1 \<noteq>
       mConstrainedPositions (mRigidBodyComponents examplePerturbed) 1 \<and>
     mConstrainedLinearVelocities (mRigidBodyComponents s') =
       mConstrainedLinearVelocities (mRigidBodyComponents examplePerturbed) \<and>
     mConstrainedAngularVelocities (mRigidBodyComponents s') =
       mConstrainedAngularVelocities (mRigidBodyComponents examplePerturbed)"
proof -
  from example_position_pass obtain s' where
    pass: "iterations 1 (solvePositionConstraint (1 / 1000000)) examplePerturbed = Some s'"
    and moved: "mConstrainedPositions (mRigidBodyComponents s') 1 = Vector3 (3 / 5) (- 1) 0"
    by blast
  from moved have "mConstrainedPositions (mRigidBodyComponents s') 1 \<noteq>
      mConstrainedPositions (mRigidBodyComponents examplePerturbed) 1"
    by (simp add: examples)
  with solvePositionConstraint_keeps_velocities [OF pass] pass show ?thesis
    by blast
qed





text \<open>
  C8: \<open>initBeforeSolve\<close> is idempotent: run on its own result, with the time step, the
  warm-start flag, the bodies, the transforms and the joints unchanged, it returns that
  result again, so that every joint field (\<open>r1World\<close>, \<open>r2World\<close>, \<open>I1\<close>, \<open>I2\<close>,
  \<open>inverseMassMatrix\<close>, \<open>biasVector\<close>, \<open>impulse\<close>) is what the first run left.
\<close>

theorem initBeforeSolve_idempotent:
  assumes "initBeforeSolve MACHINE_EPSILON s = Some s'"
  shows "initBeforeSolve MACHINE_EPSILON s' = Some s'"
proof -
  let ?n = "getNbEnabledComponents (mBallAndSocketJointComponents s)"
  let ?bf = "BETA / mTimeStep s"
  from assms have dt: "mTimeStep s \<noteq> 0"
    and pass: "forEachJoint (initBeforeSolveJoint MACHINE_EPSILON ?bf) 0 ?n s = Some s'"
    by (simp_all add: initBeforeSolve_def Let_def split: if_splits)
  from pass have inputs: "sameInputs s s'"
    by (rule init_pass_inputs)
  have "initBeforeSolveJoint MACHINE_EPSILON ?bf i s' = Some s'" if "i < ?n" for i
  proof -
    from pass that obtain t t' where row: "initBeforeSolveJoint MACHINE_EPSILON ?bf i t = Some t'"
      and "sameInputs t s'"
      and "jointRow (mBallAndSocketJointComponents s') i = jointRow (mBallAndSocketJointComponents t') i"
      by (rule init_pass_split)
    then show ?thesis
      by (intro init_row_absorb [OF row])
  qed
  then have "forEachJoint (initBeforeSolveJoint MACHINE_EPSILON ?bf) 0 ?n s' = Some s'"
    by (intro forEachJoint_fixpoint)
  moreover from inputs have "mTimeStep s' = mTimeStep s"
    and "getNbEnabledComponents (mBallAndSocketJointComponents s') = ?n"
    by (simp_all add: sameInputs_def getNbEnabledComponents_def)
  ultimately show ?thesis
    using dt by (simp add: initBeforeSolve_def Let_def)
qed

text \<open>
  On the example the first run changes the inverse mass matrix of the joint, and the
  second run changes nothing.
\<close>

theorem initBeforeSolve_idempotent_witness:
  "\<exists>s'. initBeforeSolve (1 / 1000000) exampleSystem = Some s' \<and>
     initBeforeSolve (1 / 1000000) s' = Some s' \<and>
     mInverseMassMatrix (mBallAndSocketJointComponents s') 0 \<noteq>
       mInverseMassMatrix (mBallAndSocketJointComponents exampleSystem) 0"
proof -
  from example_init obtain s' where init: "initBeforeSolve (1 / 1000000) exampleSystem = Some s'"
    and M: "mInverseMassMatrix (mBallAndSocketJointComponents s') 0 =
         Matrix3x3 (2 / 5) 0 0 0 (2 / 3) 0 0 0 (2 / 5)"
    by blast
  from initBeforeSolve_idempotent [OF init] init M show ?thesis
    by (simp add: examples zero_Matrix3x3_def)
qed



section \<open>Properties of the legacy ConstraintSolver\<close>

text \<open>
  C10: after \<open>cleanup\<close> the solver keeps no constrained body: \<open>isConstrainedBody\<close> is false for
  every body, the body-number map and the list of active constraints are empty, and the
  assertion of \<open>getConstrainedLinearVelocityOfBody\<close> and of
  \<open>getConstrainedAngularVelocityOfBody\<close> fails for every body (whatever the size of the
  array), so that neither returns a velocity. The two setters of the header, the only
  other operations it defines on the solver, leave it so.
\<close>

theorem cleanup_no_constrained_body:
  "isConstrainedBody (cleanup cs) body = False \<and>
   constraintBodies (cleanup cs) = {} \<and>
   bodyNumberMapping (cleanup cs) = Map.empty \<and>
   activeConstraints (cleanup cs) = [] \<and>
   getConstrainedLinearVelocityOfBody NB_MAX_BODIES (cleanup cs) body = None \<and>
   getConstrainedAngularVelocityOfBody NB_MAX_BODIES (cleanup cs) body = None \<and>
   isConstrainedBody (setPenetrationFactor (cleanup cs) factor) body = False \<and>
   isConstrainedBody (setNbLCPIterations (cleanup cs) nbIterations) body = False \<and>
   getConstrainedLinearVelocityOfBody NB_MAX_BODIES
     (setNbLCPIterations (setPenetrationFactor (cleanup cs) factor) nbIterations) body = None \<and>
   getConstrainedAngularVelocityOfBody NB_MAX_BODIES
     (setNbLCPIterations (setPenetrationFactor (cleanup cs) factor) nbIterations) body = None"
  by (simp add: cleanup_def isConstrainedBody_def getConstrainedLinearVelocityOfBody_def
      getConstrainedAngularVelocityOfBody_def setPenetrationFactor_def setNbLCPIterations_def)

end
